theory Spec2Isabelle
  imports Complex_Main "HOL-Library.Word" "HOL-Library.Sublist"
begin

section \<open>JavaScript strings\<close>

text \<open>
  A JavaScript string is a sequence of 16-bit code units. \<open>trim\<close>, \<open>startsWith\<close>,
  \<open>split\<close>, \<open>join\<close> and the regular expression of \<open>calculate\<close> (which has no
  \<open>u\<close> flag) all work on code units, so the model does too. \<open>js\<close> embeds an ASCII
  literal; characters outside ASCII, and the quote, backquote and line feed, are written
  as code units.
\<close>

type_synonym js_char = "16 word"
type_synonym jsstring = "js_char list"

definition js :: "string \<Rightarrow> jsstring" where
  "js s = map of_char s"

definition dquote :: js_char where
  "dquote = 0x22"

definition newline :: js_char where
  "newline = 0x0A"

definition space :: js_char where
  "space = 0x20"

text \<open>
  The code units that \<open>String.prototype.trim\<close> strips and that \<open>\s\<close> matches: the
  WhiteSpace and LineTerminator productions of ECMAScript (TAB, LF, VT, FF, CR, SP, NBSP,
  U+1680, U+2000 to U+200A, LS, PS, U+202F, U+205F, U+3000 and the byte order mark).
\<close>

definition isWhiteSpace :: "js_char \<Rightarrow> bool" where
  "isWhiteSpace c \<longleftrightarrow>
     c \<in> {0x09, 0x0A, 0x0B, 0x0C, 0x0D, 0x20, 0xA0, 0x1680, 0x2028, 0x2029,
          0x202F, 0x205F, 0x3000, 0xFEFF}
     \<or> (0x2000 \<le> c \<and> c \<le> 0x200A)"

definition trim :: "jsstring \<Rightarrow> jsstring" where
  "trim s = rev (dropWhile isWhiteSpace (rev (dropWhile isWhiteSpace s)))"

definition startsWith :: "jsstring \<Rightarrow> jsstring \<Rightarrow> bool" where
  "startsWith s p \<longleftrightarrow> prefix p s"

text \<open>\<open>s.split(' ')\<close>: one part per maximal run without a space; never an empty array.\<close>

fun split_space :: "jsstring \<Rightarrow> jsstring list" where
  "split_space [] = [[]]"
| "split_space (c # cs) =
     (if c = space then [] # split_space cs
      else (case split_space cs of
              [] \<Rightarrow> [[c]]
            | p # ps \<Rightarrow> (c # p) # ps))"

text \<open>\<open>parts.join(' ')\<close>.\<close>

fun join_space :: "jsstring list \<Rightarrow> jsstring" where
  "join_space [] = []"
| "join_space [p] = p"
| "join_space (p # q # ps) = p @ [space] @ join_space (q # ps)"

text \<open>
  \<open>String.prototype.toLowerCase\<close>. On a string of ASCII code units it lowers \<open>A\<close> to
  \<open>Z\<close> and leaves the rest. On a string that holds a code unit outside ASCII it follows
  the Unicode case mappings of the runtime, which are no part of the repository: they are
  the parameter \<open>unicode_table\<close>, any function on strings.
\<close>

definition is_ascii :: "js_char \<Rightarrow> bool" where
  "is_ascii c \<longleftrightarrow> c < 0x80"

definition lower_char :: "js_char \<Rightarrow> js_char" where
  "lower_char c = (if 0x41 \<le> c \<and> c \<le> 0x5A then c + 0x20 else c)"

definition toLowerCase :: "(jsstring \<Rightarrow> jsstring) \<Rightarrow> jsstring \<Rightarrow> jsstring" where
  "toLowerCase unicode_table s =
     (if list_all is_ascii s then map lower_char s else unicode_table s)"

text \<open>
  Truthiness of an optional string (\<open>undefined\<close> and \<open>""\<close> are falsy), and its
  rendering inside a template literal.
\<close>

fun truthy :: "jsstring option \<Rightarrow> bool" where
  "truthy None = False"
| "truthy (Some s) = (s \<noteq> [])"

fun template :: "jsstring option \<Rightarrow> jsstring" where
  "template None = js ''undefined''"
| "template (Some s) = s"

section \<open>Data model (llm.ts, command.ts)\<close>

datatype llm_role = System | User | Assistant

record llm_message =
  role :: llm_role
  content :: jsstring

record command_result =
  isCommand :: bool
  response :: "jsstring option"
  error :: "jsstring option"
  shouldContinueToLLM :: "bool option"
  clipboardContent :: "jsstring option"

record chat_context =
  system :: jsstring
  history :: "llm_message list"

text \<open>A thrown value, by the \<open>message\<close> the catch clauses read from it.\<close>

datatype js_error = Error (message: jsstring)

section \<open>The runtime the router calls into\<close>

text \<open>
  What \<open>calculate\<close> observes of the value \<open>Function(...)()\<close> returns: whether
  \<open>typeof\<close> is \<open>number\<close>, and for a number whether \<open>isFinite\<close> holds and how a
  template literal renders it.
\<close>

datatype js_value = Number (isFinite: bool) (rendered: jsstring) | NotNumber

text \<open>
  \<open>navigator.clipboard\<close>: the test \<open>navigator.clipboard && navigator.clipboard.readText\<close>
  throws, is falsy, or is truthy and \<open>readText()\<close> then rejects or resolves with a text.
\<close>

datatype clipboard_api =
    ClipboardTestThrows js_error
  | ClipboardUnavailable
  | ClipboardReadText "js_error + jsstring"

text \<open>
  The capabilities outside the router, each a function of its arguments (none is called
  twice in one turn): the Model Client \<open>chat(system, messages)\<close>, \<open>window.open(url,
  '_blank')\<close> (\<open>Some e\<close> when it throws \<open>e\<close>), the clipboard, and the engine running
  \<open>Function(source)()\<close>. With them comes the runtime's Unicode lower-casing of the
  strings that are not ASCII.
\<close>

record runtime =
  llm_chat :: "jsstring \<Rightarrow> llm_message list \<Rightarrow> js_error + jsstring"
  window_open :: "jsstring \<Rightarrow> js_error option"
  clipboard :: clipboard_api
  run_function :: "jsstring \<Rightarrow> js_error + js_value"
  unicode_lower :: "jsstring \<Rightarrow> jsstring"

text \<open>Every call that leaves the router is recorded, in order.\<close>

datatype event =
    ModelCall jsstring "llm_message list"
  | WindowOpen jsstring
  | ClipboardRead
  | Evaluate jsstring

fun is_model_call :: "event \<Rightarrow> bool" where
  "is_model_call (ModelCall s ms) = True"
| "is_model_call e = False"

section \<open>The command router (command.ts)\<close>

text \<open>
  The class \<open>CommandProcessor\<close>, read from \<open>src/unnamed/part_002\<close>; the line numbers
  below are that file's.
\<close>

definition not_a_command :: command_result where
  "not_a_command =
     \<lparr>isCommand = False, response = None, error = None,
      shouldContinueToLLM = None, clipboardContent = None\<rparr>"

definition command_response :: "jsstring \<Rightarrow> command_result" where
  "command_response r =
     \<lparr>isCommand = True, response = Some r, error = None,
      shouldContinueToLLM = None, clipboardContent = None\<rparr>"

definition command_error :: "jsstring \<Rightarrow> command_result" where
  "command_error e =
     \<lparr>isCommand = True, response = None, error = Some e,
      shouldContinueToLLM = None, clipboardContent = None\<rparr>"

subsection \<open>showHelp\<close>

definition helpText :: jsstring where
  "helpText =
     js ''**'' @ [0xD83E, 0xDD16] @ js '' Clippy AI Commands:**'' @ [newline, newline]
     @ [0xD83C, 0xDF10] @ js '' '' @ [0x60] @ js ''/open <url>'' @ [0x60]
     @ js '' - Open a website'' @ [newline]
     @ js ''   Example: '' @ [0x60] @ js ''/open https://google.com'' @ [0x60]
     @ [newline, newline]
     @ [0xD83D, 0xDCCB] @ js '' '' @ [0x60] @ js ''/clipboard'' @ [0x60]
     @ js '' - Summarize clipboard content'' @ [newline]
     @ js ''   Example: '' @ [0x60] @ js ''/clipboard'' @ [0x60] @ [newline, newline]
     @ [0xD83E, 0xDDEE] @ js '' '' @ [0x60] @ js ''/calc <expression>'' @ [0x60]
     @ js '' - Calculate math'' @ [newline]
     @ js ''   Example: '' @ [0x60] @ js ''/calc 2 + 2 * 3'' @ [0x60] @ [newline, newline]
     @ [0x2753] @ js '' '' @ [0x60] @ js ''/help'' @ [0x60] @ js '' - Show this help''
     @ [newline, newline]
     @ [0xD83D, 0xDCAC] @ js '' **Just type normally for AI chat!**''"

definition showHelp :: command_result where
  "showHelp = command_response helpText"

subsection \<open>openWebsite\<close>

definition missing_url :: jsstring where
  "missing_url = js ''Please provide a URL. Example: /open https://google.com''"

text \<open>Lines 159 to 164: the joined arguments, with \<open>https://\<close> in front unless they
  start with \<open>http://\<close> or \<open>https://\<close>.\<close>

definition normalize_url :: "jsstring list \<Rightarrow> jsstring" where
  "normalize_url args =
     (let url = join_space args in
      if \<not> startsWith url (js ''http://'') \<and> \<not> startsWith url (js ''https://'')
      then js ''https://'' @ url
      else url)"

definition openWebsite :: "runtime \<Rightarrow> jsstring list \<Rightarrow> event list \<times> command_result" where
  "openWebsite rt args =
     (if args = [] then ([], command_error missing_url)
      else
        (let url = normalize_url args in
         case window_open rt url of
           None \<Rightarrow> ([WindowOpen url], command_response ([0x2705] @ js '' Opened: '' @ url))
         | Some e \<Rightarrow>
             ([WindowOpen url], command_error (js ''Failed to open URL: '' @ message e))))"

subsection \<open>calculate\<close>

definition missing_expression :: jsstring where
  "missing_expression = js ''Please provide a math expression. Example: /calc 2 + 2''"

text \<open>The character class \<open>[0-9+\-*/().\s]\<close> and the test \<open>/^[...]+$/\<close>.\<close>

definition allowed_char :: "js_char \<Rightarrow> bool" where
  "allowed_char c \<longleftrightarrow>
     (0x30 \<le> c \<and> c \<le> 0x39)
     \<or> c \<in> {0x2B, 0x2D, 0x2A, 0x2F, 0x28, 0x29, 0x2E}
     \<or> isWhiteSpace c"

definition safety_check :: "jsstring \<Rightarrow> bool" where
  "safety_check expression \<longleftrightarrow> expression \<noteq> [] \<and> list_all allowed_char expression"

definition function_source :: "jsstring \<Rightarrow> jsstring" where
  "function_source expression =
     [dquote] @ js ''use strict'' @ [dquote] @ js ''; return ('' @ expression @ js '')''"

definition invalid_expression :: "jsstring \<Rightarrow> jsstring" where
  "invalid_expression expression =
     js ''Invalid math expression: '' @ [dquote] @ expression @ [dquote]"

text \<open>
  The body of the \<open>try\<close> (lines 195 to 210). It throws at three places: the safety
  check, the engine (a syntax error when the function is built, or an exception when it
  runs), and the check of the result.
\<close>

definition calculate_try :: "runtime \<Rightarrow> jsstring \<Rightarrow> event list \<times> (js_error + command_result)" where
  "calculate_try rt expression =
     (if \<not> safety_check expression
      then ([], Inl (Error (js ''Invalid characters in expression'')))
      else
        (case run_function rt (function_source expression) of
           Inl e \<Rightarrow> ([Evaluate (function_source expression)], Inl e)
         | Inr NotNumber \<Rightarrow>
             ([Evaluate (function_source expression)],
              Inl (Error (js ''Invalid calculation result'')))
         | Inr (Number fin shown) \<Rightarrow>
             if \<not> fin
             then ([Evaluate (function_source expression)],
                   Inl (Error (js ''Invalid calculation result'')))
             else ([Evaluate (function_source expression)],
                   Inr (command_response
                     ([0xD83E, 0xDDEE] @ js '' **'' @ expression @ js ''** = **'' @ shown
                      @ js ''**'')))))"

definition calculate :: "runtime \<Rightarrow> jsstring list \<Rightarrow> event list \<times> command_result" where
  "calculate rt args =
     (if args = [] then ([], command_error missing_expression)
      else
        (let expression = join_space args in
         case calculate_try rt expression of
           (tr, Inr result) \<Rightarrow> (tr, result)
         | (tr, Inl e) \<Rightarrow> (tr, command_error (invalid_expression expression))))"

subsection \<open>summarizeClipboard\<close>

definition clipboard_empty :: jsstring where
  "clipboard_empty = js ''Clipboard is empty or contains no text''"

definition clipboard_unavailable :: jsstring where
  "clipboard_unavailable =
     js ''Clipboard access not available. Try copying text and asking me to summarize it directly.''"

definition clipboard_denied :: jsstring where
  "clipboard_denied =
     js ''Clipboard access denied. Try copying text and asking me to summarize it directly.''"

definition acknowledgement :: jsstring where
  "acknowledgement = [0xD83D, 0xDCCB] @ js '' **Summarizing clipboard content...**''"

definition summarizeClipboard :: "runtime \<Rightarrow> event list \<times> command_result" where
  "summarizeClipboard rt =
     (case clipboard rt of
        ClipboardTestThrows e \<Rightarrow> ([], command_error clipboard_denied)
      | ClipboardUnavailable \<Rightarrow> ([], command_error clipboard_unavailable)
      | ClipboardReadText (Inl e) \<Rightarrow> ([ClipboardRead], command_error clipboard_denied)
      | ClipboardReadText (Inr clipboardText) \<Rightarrow>
          if clipboardText = [] \<or> trim clipboardText = []
          then ([ClipboardRead], command_error clipboard_empty)
          else ([ClipboardRead],
                \<lparr>isCommand = True, response = Some acknowledgement, error = None,
                 shouldContinueToLLM = Some True, clipboardContent = Some clipboardText\<rparr>))"

subsection \<open>processInput\<close>

text \<open>
  Lines 90 to 92. \<open>parts\<close> is never empty (\<open>split_space_not_empty\<close> below), so
  \<open>parts[0]\<close> is its head.
\<close>

definition command_parts :: "jsstring \<Rightarrow> jsstring list" where
  "command_parts input = split_space (drop 1 (trim input))"

definition command_name :: "runtime \<Rightarrow> jsstring \<Rightarrow> jsstring" where
  "command_name rt input = toLowerCase (unicode_lower rt) (hd (command_parts input))"

definition command_args :: "jsstring \<Rightarrow> jsstring list" where
  "command_args input = tl (command_parts input)"

definition unknown_command :: "jsstring \<Rightarrow> jsstring" where
  "unknown_command command =
     js ''Unknown command: /'' @ command @ js ''. Type /help for available commands.''"

text \<open>
  The handlers catch what their capabilities throw, and \<open>trim\<close>, \<open>split\<close>,
  \<open>join\<close> and \<open>startsWith\<close> do not throw on strings: no exception reaches the
  \<open>catch\<close> of lines 115 to 120, and \<open>processInput\<close> always returns a result.
\<close>

definition processInput :: "runtime \<Rightarrow> jsstring \<Rightarrow> event list \<times> command_result" where
  "processInput rt input =
     (if \<not> startsWith (trim input) (js ''/'') then ([], not_a_command)
      else
        (let command = command_name rt input; args = command_args input in
         if command = js ''help'' then ([], showHelp)
         else if command = js ''open'' then openWebsite rt args
         else if command = js ''calc'' \<or> command = js ''calculate'' then calculate rt args
         else if command = js ''clipboard'' then summarizeClipboard rt
         else ([], command_error (unknown_command command))))"

subsection \<open>runCommandOrChat\<close>

definition failure_marker :: jsstring where
  "failure_marker = [0x274C] @ js '' ''"

definition summary_prompt :: "jsstring \<Rightarrow> jsstring" where
  "summary_prompt text =
     js ''Please provide a concise summary of this clipboard content:''
     @ [newline, newline] @ text"

definition user_message :: "jsstring \<Rightarrow> llm_message" where
  "user_message text = \<lparr>role = User, content = text\<rparr>"

text \<open>
  The result is the trace of calls and either the returned text (\<open>Inr\<close>) or the
  exception the returned promise rejects with (\<open>Inl\<close>). The two \<open>await chat(...)\<close>
  stand outside every \<open>try\<close>.
\<close>

definition runCommandOrChat ::
  "runtime \<Rightarrow> jsstring \<Rightarrow> chat_context \<Rightarrow> event list \<times> (js_error + jsstring)" where
  "runCommandOrChat rt input ctx =
     (case processInput rt input of
        (tr, commandResult) \<Rightarrow>
          if \<not> isCommand commandResult then
            (tr @ [ModelCall (system ctx) (history ctx @ [user_message input])],
             llm_chat rt (system ctx) (history ctx @ [user_message input]))
          else if truthy (error commandResult) then
            (tr, Inr (failure_marker @ template (error commandResult)))
          else if shouldContinueToLLM commandResult = Some True
                  \<and> truthy (clipboardContent commandResult) then
            (tr @ [ModelCall (system ctx)
                     [user_message (summary_prompt (template (clipboardContent commandResult)))]],
             case llm_chat rt (system ctx)
                    [user_message (summary_prompt (template (clipboardContent commandResult)))] of
               Inl e \<Rightarrow> Inl e
             | Inr summary \<Rightarrow>
                 Inr (template (response commandResult) @ [newline, newline] @ summary))
          else
            (tr, Inr (if truthy (response commandResult)
                      then template (response commandResult)
                      else js ''Command executed successfully.'')))"

section \<open>The Model Client (llm.ts)\<close>

subsection \<open>Parsed JSON and the accessors of line 110\<close>

text \<open>
  A value \<open>response.json()\<close> resolves with. A number carries its literal: nothing here
  computes with it. \<open>undefined\<close> is \<open>None\<close> of \<open>json option\<close>.
\<close>

datatype json =
    JNull
  | JBool bool
  | JNumber jsstring
  | JString jsstring
  | JArray "json list"
  | JObject "(jsstring \<times> json) list"

text \<open>
  \<open>v.name\<close> on a value that is neither \<open>null\<close> nor \<open>undefined\<close>, for a name the
  built-in prototypes do not define (as \<open>choices\<close>, \<open>message\<close> and \<open>content\<close>): an
  object's own member, and \<open>undefined\<close> on every other value.
\<close>

fun get_property :: "jsstring \<Rightarrow> json \<Rightarrow> json option" where
  "get_property name (JObject members) = map_of members name"
| "get_property name v = None"

text \<open>\<open>v[0]\<close>: the first element of an array, the first code unit of a string, the
  member \<open>"0"\<close> of an object.\<close>

fun get_first :: "json \<Rightarrow> json option" where
  "get_first (JArray []) = None"
| "get_first (JArray (x # xs)) = Some x"
| "get_first (JString []) = None"
| "get_first (JString (c # cs)) = Some (JString [c])"
| "get_first (JObject members) = map_of members (js ''0'')"
| "get_first v = None"

text \<open>\<open>v?.access\<close>: \<open>undefined\<close> when \<open>v\<close> is \<open>null\<close> or \<open>undefined\<close>.\<close>

fun optional_chain :: "json option \<Rightarrow> (json \<Rightarrow> json option) \<Rightarrow> json option" where
  "optional_chain None access = None"
| "optional_chain (Some JNull) access = None"
| "optional_chain (Some v) access = access v"

text \<open>\<open>data?.choices?.[0]?.message?.content\<close>.\<close>

definition first_content :: "json \<Rightarrow> json option" where
  "first_content data =
     optional_chain
       (optional_chain
          (optional_chain
             (optional_chain (Some data) (get_property (js ''choices'')))
             get_first)
          (get_property (js ''message'')))
       (get_property (js ''content''))"

text \<open>\<open>v ?? ""\<close>.\<close>

fun or_empty_string :: "json option \<Rightarrow> json" where
  "or_empty_string None = JString []"
| "or_empty_string (Some JNull) = JString []"
| "or_empty_string (Some v) = v"

definition EmptyResponseError :: js_error where
  "EmptyResponseError = Error (js ''Empty response from model.'')"

text \<open>Lines 110 to 116: the text of a parsed payload, or the throw of line 113.\<close>

definition response_text :: "json \<Rightarrow> js_error + jsstring" where
  "response_text data =
     (case or_empty_string (first_content data) of
        JString text \<Rightarrow>
          if trim text = [] then Inl EmptyResponseError else Inr (trim text)
      | other \<Rightarrow> Inl EmptyResponseError)"

subsection \<open>chat\<close>

text \<open>
  The request \<open>fetch\<close> is called with. The temperature, \<open>max_tokens\<close> and the abort
  signal (floating point and timing) are left out; an aborted or failed call is a
  rejection of \<open>fetch\<close>.
\<close>

record http_request =
  url :: jsstring
  authorization :: jsstring
  model :: jsstring
  messages :: "llm_message list"

text \<open>
  \<open>error_detail\<close> is the outcome of lines 97 to 103 as the template of line 105 renders
  it: \<open>Inl e\<close> when \<open>response.text()\<close> rejects with \<open>e\<close> inside the \<open>catch\<close>,
  otherwise the suffix that follows the status text.
\<close>

record http_response =
  ok :: bool
  status :: nat
  statusText :: jsstring
  error_detail :: "js_error + jsstring"
  body_json :: "js_error + json"

record environment =
  API_KEY :: "jsstring option"
  OPENAI_MODEL :: "jsstring option"
  fetch :: "http_request \<Rightarrow> js_error + http_response"

record chat_options =
  modelOverride :: "jsstring option"

fun decimal :: "nat \<Rightarrow> jsstring" where
  "decimal n =
     (if n < 10 then [0x30 + of_nat n]
      else decimal (n div 10) @ [0x30 + of_nat (n mod 10)])"

declare decimal.simps [simp del]

definition API_URL :: jsstring where
  "API_URL = js ''https://api.openai.com/v1/chat/completions''"

definition DEFAULT_MODEL :: "environment \<Rightarrow> jsstring" where
  "DEFAULT_MODEL env =
     (if truthy (OPENAI_MODEL env) then template (OPENAI_MODEL env) else js ''gpt-4o-mini'')"

definition chat_request ::
  "environment \<Rightarrow> jsstring \<Rightarrow> llm_message list \<Rightarrow> chat_options \<Rightarrow> http_request" where
  "chat_request env sys msgs opts =
     \<lparr>url = API_URL,
      authorization = js ''Bearer '' @ template (API_KEY env),
      model = (if truthy (modelOverride opts) then template (modelOverride opts)
               else DEFAULT_MODEL env),
      messages = (if sys \<noteq> [] then [\<lparr>role = System, content = sys\<rparr>] else []) @ msgs\<rparr>"

definition chat ::
  "environment \<Rightarrow> jsstring \<Rightarrow> llm_message list \<Rightarrow> chat_options \<Rightarrow> js_error + jsstring" where
  "chat env sys msgs opts =
     (if \<not> truthy (API_KEY env) then
        Inl (Error (js ''Missing VITE_OPENAI_API_KEY. Add it to your .env file (see .env.example).''))
      else
        (case fetch env (chat_request env sys msgs opts) of
           Inl e \<Rightarrow> Inl e
         | Inr resp \<Rightarrow>
             if \<not> ok resp then
               (case error_detail resp of
                  Inl e \<Rightarrow> Inl e
                | Inr detail \<Rightarrow>
                    Inl (Error (js ''OpenAI '' @ decimal (status resp) @ js '' ''
                                @ statusText resp @ detail)))
             else
               (case body_json resp of
                  Inl e \<Rightarrow> Inl e
                | Inr data \<Rightarrow> response_text data)))"

text \<open>The router imports \<open>chat\<close> and calls it without options.\<close>

definition with_model_client :: "environment \<Rightarrow> runtime \<Rightarrow> runtime" where
  "with_model_client env rt =
     rt\<lparr>llm_chat := (\<lambda>sys msgs. chat env sys msgs \<lparr>modelOverride = None\<rparr>)\<rparr>"

section \<open>Test doubles\<close>

text \<open>A runtime whose capabilities answer the same whatever they are asked, and whose
  Unicode table leaves a string as it is.\<close>

definition mock_runtime ::
  "js_error + jsstring \<Rightarrow> js_error option \<Rightarrow> clipboard_api \<Rightarrow> js_error + js_value \<Rightarrow> runtime" where
  "mock_runtime reply opened clip evaluated =
     \<lparr>llm_chat = (\<lambda>sys msgs. reply), window_open = (\<lambda>u. opened), clipboard = clip,
      run_function = (\<lambda>source. evaluated), unicode_lower = (\<lambda>s. s)\<rparr>"

definition empty_context :: chat_context where
  "empty_context = \<lparr>system = js ''You are Clippy AI, a helpful desktop assistant.'', history = []\<rparr>"

text \<open>
  An environment with no API key, and one whose endpoint answers every request with
  status 200 and the given payload; \<open>completion c\<close> is a payload of the endpoint's
  shape whose first message has the content \<open>c\<close>.
\<close>

definition unconfigured_environment :: environment where
  "unconfigured_environment =
     \<lparr>API_KEY = None, OPENAI_MODEL = None,
      fetch = (\<lambda>request. Inl (Error (js ''Failed to fetch'')))\<rparr>"

definition answering_environment :: "json \<Rightarrow> environment" where
  "answering_environment payload =
     \<lparr>API_KEY = Some (js ''sk-test''), OPENAI_MODEL = None,
      fetch = (\<lambda>request. Inr \<lparr>ok = True, status = 200, statusText = js ''OK'',
                                 error_detail = Inr [], body_json = Inr payload\<rparr>)\<rparr>"

definition completion :: "json \<Rightarrow> json" where
  "completion c =
     JObject [(js ''choices'',
       JArray [JObject [(js ''index'', JNumber (js ''0'')),
                        (js ''message'',
                           JObject [(js ''role'', JString (js ''assistant'')),
                                    (js ''content'', c)])]])]"

section \<open>The whitelist as the specification words it\<close>

text \<open>
  The specification gives the character class of \<open>calculate\<close> as \<open>[0-9+\-*/(). ]\<close>:
  the digits, the four operators, the parentheses, the dot and the space, the space being
  its only blank. This second definition follows those words, to be compared with
  \<open>allowed_char\<close>, which follows the regular expression of the source.
\<close>

definition spec_whitelist :: "js_char \<Rightarrow> bool" where
  "spec_whitelist c \<longleftrightarrow>
     (0x30 \<le> c \<and> c \<le> 0x39) \<or> c \<in> {0x2B, 0x2D, 0x2A, 0x2F, 0x28, 0x29, 0x2E, 0x20}"

section \<open>The arithmetic of /calc as the specification words it\<close>

text \<open>
  Modelled from the spec: the JavaScript engine that runs \<open>Function(...)()\<close> at line 201
  is not code of this repository. The specification has the joined expression evaluated
  \<^emph>\<open>as a basic arithmetic expression (operators \<open>+ - * /\<close>, parentheses, decimal
  literals, standard precedence and associativity)\<close> and rejected \<^emph>\<open>if the evaluated
  result is not a finite real number\<close>. The definitions of this section follow those
  words and stand for the engine where a statement says so: the numbers are the
  rationals, a division by zero has no finite real value, and a text that is not such an
  expression is a syntax error.
\<close>

datatype binop = Add | Subtract | Multiply | Divide

fun precedence :: "binop \<Rightarrow> nat" where
  "precedence Add = 1"
| "precedence Subtract = 1"
| "precedence Multiply = 2"
| "precedence Divide = 2"

text \<open>A value is a rational number, or \<open>None\<close> where there is no finite real value.\<close>

fun combine :: "binop \<Rightarrow> rat option \<Rightarrow> rat option \<Rightarrow> rat option" where
  "combine f (Some x) (Some y) =
     (case f of
        Add \<Rightarrow> Some (x + y)
      | Subtract \<Rightarrow> Some (x - y)
      | Multiply \<Rightarrow> Some (x * y)
      | Divide \<Rightarrow> if y = 0 then None else Some (x / y))"
| "combine f x y = None"

text \<open>
  What \<^emph>\<open>standard precedence and associativity\<close> mean: an expression is a tree, and
  \<open>written p e\<close> is the way it is written where an operator of precedence \<open>p\<close> or more
  may stand without parentheses. The operators associate to the left, so the right
  operand is written one level higher than the left one.
\<close>

datatype expr = Const rat | Binary binop expr expr

fun meaning :: "expr \<Rightarrow> rat option" where
  "meaning (Const q) = Some q"
| "meaning (Binary f l r) = combine f (meaning l) (meaning r)"

datatype token = Decimal rat | Operator binop | LParen | RParen

fun written :: "nat \<Rightarrow> expr \<Rightarrow> token list" where
  "written p (Const q) = [Decimal q]"
| "written p (Binary f l r) =
     (if precedence f < p
      then [LParen] @ written (precedence f) l @ [Operator f]
           @ written (Suc (precedence f)) r @ [RParen]
      else written (precedence f) l @ [Operator f] @ written (Suc (precedence f)) r)"

text \<open>
  The tokens of a text. A decimal literal is a run of digits with at most one point and
  at least one digit; \<open>Reading seen m k\<close> holds the digits read so far as the number \<open>m\<close>,
  with \<open>k\<close> the number of them behind the point. Spaces separate; any other character
  is an error.
\<close>

datatype scan = Idle | Reading bool nat "nat option"

fun literal_end :: "scan \<Rightarrow> token list option" where
  "literal_end Idle = Some []"
| "literal_end (Reading seen m k) =
     (if seen then Some [Decimal (of_nat m / 10 ^ (case k of None \<Rightarrow> 0 | Some n \<Rightarrow> n))]
      else None)"

fun digit :: "scan \<Rightarrow> nat \<Rightarrow> scan" where
  "digit Idle d = Reading True d None"
| "digit (Reading seen m None) d = Reading True (10 * m + d) None"
| "digit (Reading seen m (Some n)) d = Reading True (10 * m + d) (Some (Suc n))"

fun point :: "scan \<Rightarrow> scan option" where
  "point Idle = Some (Reading False 0 (Some 0))"
| "point (Reading seen m None) = Some (Reading seen m (Some 0))"
| "point (Reading seen m (Some n)) = None"

definition symbol :: "js_char \<Rightarrow> token option" where
  "symbol c =
     (if c = 0x2B then Some (Operator Add)
      else if c = 0x2D then Some (Operator Subtract)
      else if c = 0x2A then Some (Operator Multiply)
      else if c = 0x2F then Some (Operator Divide)
      else if c = 0x28 then Some LParen
      else if c = 0x29 then Some RParen
      else None)"

fun tokens :: "scan \<Rightarrow> jsstring \<Rightarrow> token list option" where
  "tokens st [] = literal_end st"
| "tokens st (c # cs) =
     (if 0x30 \<le> c \<and> c \<le> 0x39 then tokens (digit st (unat c - 48)) cs
      else if c = 0x2E then
        (case point st of None \<Rightarrow> None | Some st' \<Rightarrow> tokens st' cs)
      else
        (case literal_end st of
           None \<Rightarrow> None
         | Some lit \<Rightarrow>
             if c = 0x20 then map_option (\<lambda>ts. lit @ ts) (tokens Idle cs)
             else
               (case symbol c of
                  None \<Rightarrow> None
                | Some t \<Rightarrow> map_option (\<lambda>ts. lit @ t # ts) (tokens Idle cs))))"

text \<open>
  The evaluation of the tokens, with a stack of values and a stack of the operators and
  opening parentheses that wait for their right operand. \<open>unwind p\<close> applies the waiting
  operators of precedence \<open>p\<close> or more, down to the nearest parenthesis; \<open>shunt\<close> reads
  the tokens, its first argument telling whether an operand or an operator comes next.
  The outer \<open>None\<close> is a syntax error.
\<close>

datatype held = Pending binop | Bracket

fun apply_top :: "binop \<Rightarrow> rat option list \<Rightarrow> rat option list option" where
  "apply_top f (y # x # vs) = Some (combine f x y # vs)"
| "apply_top f vs = None"

fun unwind :: "nat \<Rightarrow> held list \<Rightarrow> rat option list \<Rightarrow> (held list \<times> rat option list) option" where
  "unwind p (Pending g # hs) vs =
     (if p \<le> precedence g
      then (case apply_top g vs of None \<Rightarrow> None | Some vs' \<Rightarrow> unwind p hs vs')
      else Some (Pending g # hs, vs))"
| "unwind p hs vs = Some (hs, vs)"

fun shunt :: "bool \<Rightarrow> held list \<Rightarrow> rat option list \<Rightarrow> token list \<Rightarrow> rat option option" where
  "shunt operand hs vs [] =
     (if operand then None
      else (case unwind 0 hs vs of Some ([], [v]) \<Rightarrow> Some v | _ \<Rightarrow> None))"
| "shunt operand hs vs (Decimal q # ts) =
     (if operand then shunt False hs (Some q # vs) ts else None)"
| "shunt operand hs vs (LParen # ts) =
     (if operand then shunt True (Bracket # hs) vs ts else None)"
| "shunt operand hs vs (RParen # ts) =
     (if operand then None
      else (case unwind 0 hs vs of
              Some (Bracket # hs', vs') \<Rightarrow> shunt False hs' vs' ts
            | _ \<Rightarrow> None))"
| "shunt operand hs vs (Operator f # ts) =
     (if operand then None
      else (case unwind (precedence f) hs vs of
              Some (hs', vs') \<Rightarrow> shunt True (Pending f # hs') vs' ts
            | None \<Rightarrow> None))"

definition spec_evaluate :: "jsstring \<Rightarrow> rat option option" where
  "spec_evaluate expression =
     (case tokens Idle expression of None \<Rightarrow> None | Some ts \<Rightarrow> shunt True [] [] ts)"

text \<open>
  The result as it is shown: in decimal, a whole number without a point, any other one
  with the places behind the point that its division gives, sixteen at most.
\<close>

fun fraction :: "nat \<Rightarrow> nat \<Rightarrow> nat \<Rightarrow> jsstring" where
  "fraction 0 r d = []"
| "fraction (Suc n) r d =
     (if r = 0 then []
      else (0x30 + of_nat (10 * r div d)) # fraction n (10 * r mod d) d)"

definition render :: "rat \<Rightarrow> jsstring" where
  "render q =
     (case quotient_of q of
        (n, d) \<Rightarrow>
          (if n < 0 then js ''-'' else [])
          @ decimal (nat \<bar>n\<bar> div nat d)
          @ (if nat \<bar>n\<bar> mod nat d = 0 then []
             else js ''.'' @ fraction 16 (nat \<bar>n\<bar> mod nat d) (nat d)))"

text \<open>
  The engine, given the source \<open>"use strict"; return (expression)\<close> that \<open>calculate\<close>
  builds: it evaluates the expression in the parentheses. A text that is not an
  arithmetic expression throws, as a syntax error does when the function is built.
\<close>

fun after_prefix :: "jsstring \<Rightarrow> jsstring \<Rightarrow> jsstring option" where
  "after_prefix [] s = Some s"
| "after_prefix (p # ps) [] = None"
| "after_prefix (p # ps) (c # cs) = (if p = c then after_prefix ps cs else None)"

definition function_body :: "jsstring \<Rightarrow> jsstring option" where
  "function_body source =
     (case after_prefix ([dquote] @ js ''use strict'' @ [dquote] @ js ''; return ('') source of
        None \<Rightarrow> None
      | Some rest \<Rightarrow>
          if rest \<noteq> [] \<and> last rest = 0x29 then Some (butlast rest) else None)"

definition spec_run_function :: "jsstring \<Rightarrow> js_error + js_value" where
  "spec_run_function source =
     (case function_body source of
        None \<Rightarrow> Inl (Error (js ''SyntaxError''))
      | Some expression \<Rightarrow>
          (case spec_evaluate expression of
             None \<Rightarrow> Inl (Error (js ''SyntaxError''))
           | Some None \<Rightarrow> Inr (Number False (js ''NaN''))
           | Some (Some q) \<Rightarrow> Inr (Number True (render q))))"

definition with_arithmetic :: "runtime \<Rightarrow> runtime" where
  "with_arithmetic rt = rt\<lparr>run_function := spec_run_function\<rparr>"

section \<open>Basic facts\<close>

lemma split_space_not_empty: "split_space s \<noteq> []"
  by (induction s) (auto split: list.splits)

lemmas string_defs = js_def trim_def startsWith_def isWhiteSpace_def space_def newline_def
  dquote_def toLowerCase_def lower_char_def is_ascii_def

lemmas router_defs = runCommandOrChat_def processInput_def openWebsite_def calculate_def
  calculate_try_def summarizeClipboard_def showHelp_def not_a_command_def command_response_def
  command_error_def command_name_def command_args_def command_parts_def normalize_url_def
  safety_check_def allowed_char_def function_source_def invalid_expression_def
  unknown_command_def failure_marker_def summary_prompt_def user_message_def
  missing_url_def missing_expression_def clipboard_empty_def clipboard_denied_def
  clipboard_unavailable_def acknowledgement_def mock_runtime_def empty_context_def

lemma dropWhile_all: "dropWhile P xs = [] \<longleftrightarrow> list_all P xs"
  by (simp add: dropWhile_eq_Nil_conv list_all_iff)

lemma last_dropWhile: "dropWhile P xs \<noteq> [] \<Longrightarrow> last (dropWhile P xs) = last xs"
  by (induction xs) auto

text \<open>\<open>trim\<close> leaves nothing exactly on the strings made of white space, and what it
  leaves neither starts nor ends with white space.\<close>

lemma trim_empty_iff: "trim s = [] \<longleftrightarrow> list_all isWhiteSpace s"
proof
  assume "trim s = []"
  then have e: "dropWhile isWhiteSpace (rev (dropWhile isWhiteSpace s)) = []"
    by (simp add: trim_def)
  have "dropWhile isWhiteSpace s = []"
  proof (rule ccontr)
    assume n: "dropWhile isWhiteSpace s \<noteq> []"
    then have "\<not> isWhiteSpace (hd (dropWhile isWhiteSpace s))"
      by (rule hd_dropWhile)
    moreover have "hd (dropWhile isWhiteSpace s) \<in> set (rev (dropWhile isWhiteSpace s))"
      using n by simp
    moreover have "\<forall>c \<in> set (rev (dropWhile isWhiteSpace s)). isWhiteSpace c"
      using e unfolding dropWhile_eq_Nil_conv .
    ultimately show False by blast
  qed
  then show "list_all isWhiteSpace s"
    by (simp only: dropWhile_all)
next
  assume "list_all isWhiteSpace s"
  then have "dropWhile isWhiteSpace s = []"
    by (simp only: dropWhile_all)
  then show "trim s = []"
    unfolding trim_def by (metis dropWhile.simps(1) rev.simps(1))
qed

lemma trim_hd:
  assumes "trim s \<noteq> []"
  shows "\<not> isWhiteSpace (hd (trim s))"
proof -
  let ?t = "dropWhile isWhiteSpace s"
  let ?u = "dropWhile isWhiteSpace (rev ?t)"
  from assms have u: "?u \<noteq> []" by (simp add: trim_def)
  then have t: "?t \<noteq> []" by (metis dropWhile.simps(1) rev.simps(1))
  have "hd (trim s) = last ?u"
    using u by (simp add: trim_def hd_rev)
  also have "\<dots> = last (rev ?t)"
    using u by (rule last_dropWhile)
  also have "\<dots> = hd ?t"
    using t by (simp add: last_rev)
  finally show ?thesis
    using hd_dropWhile [OF t] by simp
qed

lemma trim_last:
  assumes "trim s \<noteq> []"
  shows "\<not> isWhiteSpace (last (trim s))"
proof -
  let ?u = "dropWhile isWhiteSpace (rev (dropWhile isWhiteSpace s))"
  from assms have u: "?u \<noteq> []" by (simp add: trim_def)
  have "last (trim s) = hd ?u"
    using u by (simp add: trim_def last_rev)
  then show ?thesis
    using hd_dropWhile [OF u] by simp
qed

text \<open>No handler calls the Model Client, and no handler reports an empty error.\<close>

lemma processInput_no_model_call: "\<not> list_ex is_model_call (fst (processInput rt input))"
  by (simp add: processInput_def openWebsite_def calculate_def calculate_try_def
      summarizeClipboard_def Let_def
      split: option.splits sum.splits js_value.splits clipboard_api.splits prod.splits)

lemma processInput_error_not_empty:
  "error (snd (processInput rt input)) = Some e \<Longrightarrow> e \<noteq> []"
  by (auto simp: processInput_def openWebsite_def calculate_def calculate_try_def
      summarizeClipboard_def Let_def not_a_command_def showHelp_def command_response_def
      command_error_def unknown_command_def invalid_expression_def missing_url_def
      missing_expression_def clipboard_empty_def clipboard_denied_def clipboard_unavailable_def
      js_def
      split: option.splits sum.splits js_value.splits clipboard_api.splits prod.splits if_splits)

section \<open>Ordinary chat\<close>

text \<open>
  C1. When the trimmed input does not start with \<open>/\<close>, \<open>runCommandOrChat\<close> makes one call,
  the Model Client's, with the system prompt of the context and its history followed by
  the input as a user message (the input as typed, not trimmed), and its outcome is that
  call's outcome. The trace holds no other event: no handler ran and no other capability
  was used.
\<close>

theorem chat_turn_forwarded:
  "\<not> startsWith (trim input) (js ''/'') \<Longrightarrow>
   runCommandOrChat rt input ctx =
     ([ModelCall (system ctx) (history ctx @ [\<lparr>role = User, content = input\<rparr>])],
      llm_chat rt (system ctx) (history ctx @ [\<lparr>role = User, content = input\<rparr>]))"
  by (simp add: runCommandOrChat_def processInput_def not_a_command_def user_message_def)

theorem chat_turn_forwarded_witness:
  "\<not> startsWith (trim (js '' hello there '')) (js ''/'') \<and>
   runCommandOrChat (mock_runtime (Inr (js ''Hi!'')) None ClipboardUnavailable (Inr NotNumber))
       (js '' hello there '')
       \<lparr>system = js ''Be brief.'',
        history = [\<lparr>role = Assistant, content = js ''Welcome''\<rparr>]\<rparr> =
     ([ModelCall (js ''Be brief.'')
         [\<lparr>role = Assistant, content = js ''Welcome''\<rparr>,
          \<lparr>role = User, content = js '' hello there ''\<rparr>]],
      Inr (js ''Hi!''))"
proof -
  have h: "\<not> startsWith (trim (js '' hello there '')) (js ''/'')"
    by (simp add: string_defs)
  show ?thesis
    using h chat_turn_forwarded [OF h,
        of "mock_runtime (Inr (js ''Hi!'')) None ClipboardUnavailable (Inr NotNumber)"
           "\<lparr>system = js ''Be brief.'',
             history = [\<lparr>role = Assistant, content = js ''Welcome''\<rparr>]\<rparr>"]
    by (simp add: mock_runtime_def)
qed

section \<open>The bare sigil\<close>

text \<open>
  C9. An input that trims to \<open>/\<close> alone is a command: the command token is the empty
  string, no handler matches it, and the turn ends with the unknown-command error naming
  the empty command, behind the failure marker, without any call.
\<close>

theorem bare_sigil_is_unknown_command:
  "trim input = js ''/'' \<Longrightarrow>
     command_name rt input = [] \<and>
     processInput rt input =
       ([], command_error (js ''Unknown command: /. Type /help for available commands.'')) \<and>
     runCommandOrChat rt input ctx =
       ([], Inr ([0x274C] @ js '' Unknown command: /. Type /help for available commands.''))"
  by (simp add: router_defs string_defs)

theorem bare_sigil_is_unknown_command_witness:
  "trim (js ''  / '') = js ''/'' \<and>
   runCommandOrChat (mock_runtime (Inr (js ''Hi!'')) None ClipboardUnavailable (Inr NotNumber))
       (js ''  / '') empty_context =
     ([], Inr ([0x274C] @ js '' Unknown command: /. Type /help for available commands.''))"
proof -
  have h: "trim (js ''  / '') = js ''/''"
    by (simp add: string_defs)
  show ?thesis
    using h bare_sigil_is_unknown_command [OF h]
    by simp
qed

section \<open>Command errors\<close>

text \<open>The branch of line 64: a command result with an error ends the turn with the marked
  error, and the trace is the handler's.\<close>

lemma run_error_branch:
  assumes p: "processInput rt input = (tr, result)"
    and c: "isCommand result" and e: "error result = Some e"
  shows "runCommandOrChat rt input ctx = (tr, Inr (failure_marker @ e))"
proof -
  have "e \<noteq> []"
    using processInput_error_not_empty [of rt input e] p e by simp
  then show ?thesis
    using p c e by (simp add: runCommandOrChat_def)
qed

lemma unknown_command_result:
  assumes "startsWith (trim input) (js ''/'')"
    and "command_name rt input \<notin> {js ''help'', js ''open'', js ''calc'', js ''calculate'', js ''clipboard''}"
  shows "processInput rt input = ([], command_error (unknown_command (command_name rt input)))"
  using assms by (simp add: processInput_def Let_def)

section \<open>What a turn can end with\<close>

text \<open>
  Every handler returns a command result that carries a non-empty error, or no error and
  no request to go on to the model, or (the clipboard alone, after one read) the
  acknowledgement with the text to summarise. A turn therefore ends in one of three ways:
  the chat call, a local text, or the clipboard read followed by the summary call.
\<close>

lemma js_eq_Nil: "js s = [] \<longleftrightarrow> s = []"
  by (simp add: js_def)

lemma openWebsite_shapes:
  "isCommand (snd (openWebsite rt args))
   \<and> shouldContinueToLLM (snd (openWebsite rt args)) = None
   \<and> (truthy (error (snd (openWebsite rt args))) \<or> error (snd (openWebsite rt args)) = None)"
  by (cases "window_open rt (normalize_url args)")
     (simp_all add: openWebsite_def missing_url_def command_error_def command_response_def
        Let_def js_eq_Nil)

lemma calculate_shapes:
  "isCommand (snd (calculate rt args))
   \<and> shouldContinueToLLM (snd (calculate rt args)) = None
   \<and> (truthy (error (snd (calculate rt args))) \<or> error (snd (calculate rt args)) = None)"
  by (simp add: calculate_def calculate_try_def missing_expression_def invalid_expression_def
      command_error_def command_response_def Let_def js_eq_Nil
      split: sum.splits js_value.splits)

lemma summarizeClipboard_shapes:
  "isCommand (snd (summarizeClipboard rt))
   \<and> (truthy (error (snd (summarizeClipboard rt)))
      \<and> shouldContinueToLLM (snd (summarizeClipboard rt)) = None
      \<or> fst (summarizeClipboard rt) = [ClipboardRead]
        \<and> error (snd (summarizeClipboard rt)) = None
        \<and> shouldContinueToLLM (snd (summarizeClipboard rt)) = Some True
        \<and> truthy (clipboardContent (snd (summarizeClipboard rt)))
        \<and> response (snd (summarizeClipboard rt)) = Some acknowledgement)"
  by (simp add: summarizeClipboard_def clipboard_denied_def clipboard_unavailable_def
      clipboard_empty_def command_error_def js_eq_Nil
      split: clipboard_api.splits sum.splits)

lemma processInput_dispatch:
  "processInput rt input = ([], not_a_command)
   \<or> processInput rt input = ([], showHelp)
   \<or> processInput rt input = openWebsite rt (command_args input)
   \<or> processInput rt input = calculate rt (command_args input)
   \<or> processInput rt input = summarizeClipboard rt
   \<or> processInput rt input = ([], command_error (unknown_command (command_name rt input)))"
  by (simp add: processInput_def Let_def)

lemma processInput_shapes:
  "(fst (processInput rt input) = [] \<and> \<not> isCommand (snd (processInput rt input)))
   \<or> (isCommand (snd (processInput rt input))
       \<and> truthy (error (snd (processInput rt input))))
   \<or> (isCommand (snd (processInput rt input))
       \<and> error (snd (processInput rt input)) = None
       \<and> shouldContinueToLLM (snd (processInput rt input)) = None)
   \<or> (fst (processInput rt input) = [ClipboardRead]
       \<and> isCommand (snd (processInput rt input))
       \<and> error (snd (processInput rt input)) = None
       \<and> shouldContinueToLLM (snd (processInput rt input)) = Some True
       \<and> truthy (clipboardContent (snd (processInput rt input)))
       \<and> response (snd (processInput rt input)) = Some acknowledgement)"
proof -
  consider (chat) "processInput rt input = ([], not_a_command)"
    | (usage) "processInput rt input = ([], showHelp)"
    | (open_url) "processInput rt input = openWebsite rt (command_args input)"
    | (calc) "processInput rt input = calculate rt (command_args input)"
    | (clip) "processInput rt input = summarizeClipboard rt"
    | (unknown) "processInput rt input = ([], command_error (unknown_command (command_name rt input)))"
    using processInput_dispatch [of rt input] by blast
  then show ?thesis
  proof cases
    case chat
    then show ?thesis by (simp add: not_a_command_def)
  next
    case usage
    then show ?thesis by (simp add: showHelp_def command_response_def)
  next
    case open_url
    then show ?thesis using openWebsite_shapes [of rt "command_args input"] by auto
  next
    case calc
    then show ?thesis using calculate_shapes [of rt "command_args input"] by auto
  next
    case clip
    then show ?thesis using summarizeClipboard_shapes [of rt] by auto
  next
    case unknown
    then show ?thesis by (simp add: command_error_def unknown_command_def js_eq_Nil)
  qed
qed


lemma run_shapes:
  "(fst (processInput rt input) = [] \<and>
    runCommandOrChat rt input ctx =
      ([ModelCall (system ctx) (history ctx @ [user_message input])],
       llm_chat rt (system ctx) (history ctx @ [user_message input])))
   \<or> (\<exists>t. runCommandOrChat rt input ctx = (fst (processInput rt input), Inr t))
   \<or> (\<exists>T. runCommandOrChat rt input ctx =
          ([ClipboardRead, ModelCall (system ctx) [user_message (summary_prompt T)]],
           case llm_chat rt (system ctx) [user_message (summary_prompt T)] of
             Inl e \<Rightarrow> Inl e
           | Inr summary \<Rightarrow> Inr (acknowledgement @ [newline, newline] @ summary)))"
proof -
  let ?p = "processInput rt input"
  consider
      (chat) "fst ?p = []" "\<not> isCommand (snd ?p)"
    | (err) "isCommand (snd ?p)" "truthy (error (snd ?p))"
    | (resp) "isCommand (snd ?p)" "error (snd ?p) = None" "shouldContinueToLLM (snd ?p) = None"
    | (clip) "fst ?p = [ClipboardRead]" "isCommand (snd ?p)" "error (snd ?p) = None"
        "shouldContinueToLLM (snd ?p) = Some True" "truthy (clipboardContent (snd ?p))"
        "response (snd ?p) = Some acknowledgement"
    using processInput_shapes [of rt input] by (elim disjE conjE) simp_all
  then show ?thesis
  proof cases
    case chat
    then show ?thesis
      by (simp add: runCommandOrChat_def case_prod_beta)
  next
    case err
    then have "runCommandOrChat rt input ctx =
        (fst ?p, Inr (failure_marker @ template (error (snd ?p))))"
      by (simp add: runCommandOrChat_def case_prod_beta)
    then show ?thesis by blast
  next
    case resp
    then have "runCommandOrChat rt input ctx =
        (fst ?p, Inr (if truthy (response (snd ?p)) then template (response (snd ?p))
                      else js ''Command executed successfully.''))"
      by (simp add: runCommandOrChat_def case_prod_beta)
    then show ?thesis by blast
  next
    case clip
    let ?T = "template (clipboardContent (snd ?p))"
    have "runCommandOrChat rt input ctx =
          ([ClipboardRead, ModelCall (system ctx) [user_message (summary_prompt ?T)]],
           case llm_chat rt (system ctx) [user_message (summary_prompt ?T)] of
             Inl e \<Rightarrow> Inl e
           | Inr summary \<Rightarrow> Inr (acknowledgement @ [newline, newline] @ summary))"
      using clip
      by (cases "llm_chat rt (system ctx) [user_message (summary_prompt ?T)]")
         (simp_all add: runCommandOrChat_def case_prod_beta)
    then show ?thesis by blast
  qed
qed

section \<open>The commands\<close>

text \<open>Which handler runs, and what the turn makes of a response and of the clipboard's
  text.\<close>

lemma processInput_clipboard:
  assumes "startsWith (trim input) (js ''/'')" and "command_name rt input = js ''clipboard''"
  shows "processInput rt input = summarizeClipboard rt"
  using assms by (simp add: processInput_def Let_def js_def)

lemma processInput_open:
  assumes "startsWith (trim input) (js ''/'')" and "command_name rt input = js ''open''"
  shows "processInput rt input = openWebsite rt (command_args input)"
  using assms by (simp add: processInput_def Let_def js_def)

lemma processInput_calc:
  assumes "startsWith (trim input) (js ''/'')"
    and "command_name rt input = js ''calc'' \<or> command_name rt input = js ''calculate''"
  shows "processInput rt input = calculate rt (command_args input)"
  using assms by (auto simp: processInput_def Let_def js_def)

lemma run_response:
  assumes "processInput rt input = (tr, command_response r)" and "r \<noteq> []"
  shows "runCommandOrChat rt input ctx = (tr, Inr r)"
  using assms by (simp add: runCommandOrChat_def command_response_def)

lemma run_clipboard_text:
  assumes "processInput rt input =
      ([ClipboardRead],
       \<lparr>isCommand = True, response = Some acknowledgement, error = None,
        shouldContinueToLLM = Some True, clipboardContent = Some T\<rparr>)"
    and "T \<noteq> []"
  shows "runCommandOrChat rt input ctx =
      ([ClipboardRead, ModelCall (system ctx) [user_message (summary_prompt T)]],
       case llm_chat rt (system ctx) [user_message (summary_prompt T)] of
         Inl e \<Rightarrow> Inl e
       | Inr summary \<Rightarrow> Inr (acknowledgement @ [newline, newline] @ summary))"
  using assms
  by (cases "llm_chat rt (system ctx) [user_message (summary_prompt T)]")
     (simp_all add: runCommandOrChat_def)

subsection \<open>/clipboard\<close>

text \<open>
  C3. For the command \<open>/clipboard\<close>, when the clipboard read yields the text \<open>T\<close>:
  if \<open>T\<close> is empty or all white space, the turn is the read alone and returns the error
  \<open>Clipboard is empty or contains no text\<close> behind the marker, with no Model Client
  call; otherwise the turn is the read and then one Model Client call, whose messages are
  the single user message \<open>Please provide a concise summary of this clipboard content:\<close>,
  two line feeds, \<open>T\<close> (no history), and when that call returns a summary the result is
  the acknowledgement, two line feeds, the summary.
\<close>

theorem clipboard_summary:
  assumes "startsWith (trim input) (js ''/'')"
    and "command_name rt input = js ''clipboard''"
    and "clipboard rt = ClipboardReadText (Inr T)"
  shows
    "(T = [] \<or> list_all isWhiteSpace T \<longrightarrow>
        runCommandOrChat rt input ctx =
          ([ClipboardRead], Inr ([0x274C] @ js '' Clipboard is empty or contains no text''))
        \<and> sublist (js ''empty'') ([0x274C] @ js '' Clipboard is empty or contains no text''))
     \<and> (T \<noteq> [] \<and> \<not> list_all isWhiteSpace T \<longrightarrow>
        fst (runCommandOrChat rt input ctx) =
          [ClipboardRead,
           ModelCall (system ctx)
             [\<lparr>role = User,
               content = js ''Please provide a concise summary of this clipboard content:''
                         @ [newline, newline] @ T\<rparr>]]
        \<and> (\<forall>summary.
              llm_chat rt (system ctx)
                [\<lparr>role = User,
                  content = js ''Please provide a concise summary of this clipboard content:''
                            @ [newline, newline] @ T\<rparr>] = Inr summary
              \<longrightarrow> snd (runCommandOrChat rt input ctx) =
                    Inr (acknowledgement @ [newline, newline] @ summary)))"
proof (intro conjI impI)
  assume blank: "T = [] \<or> list_all isWhiteSpace T"
  then have "trim T = []"
    by (auto simp: trim_empty_iff)
  then have "summarizeClipboard rt = ([ClipboardRead], command_error clipboard_empty)"
    using assms(3) by (simp add: summarizeClipboard_def)
  then have "processInput rt input = ([ClipboardRead], command_error clipboard_empty)"
    using assms(1,2) by (simp add: processInput_clipboard)
  then have "runCommandOrChat rt input ctx =
      ([ClipboardRead], Inr (failure_marker @ clipboard_empty))"
    by (simp add: run_error_branch command_error_def)
  then show "runCommandOrChat rt input ctx =
      ([ClipboardRead], Inr ([0x274C] @ js '' Clipboard is empty or contains no text''))"
    by (simp add: failure_marker_def clipboard_empty_def js_def)
next
  have "sublist (js ''empty'')
          (([0x274C] @ js '' Clipboard is '') @ js ''empty'' @ js '' or contains no text'')"
    by (rule sublist_appendI)
  then show "sublist (js ''empty'') ([0x274C] @ js '' Clipboard is empty or contains no text'')"
    by (simp add: js_def)
next
  assume filled: "T \<noteq> [] \<and> \<not> list_all isWhiteSpace T"
  then have "trim T \<noteq> []"
    by (simp add: trim_empty_iff)
  with filled have "summarizeClipboard rt =
      ([ClipboardRead],
       \<lparr>isCommand = True, response = Some acknowledgement, error = None,
        shouldContinueToLLM = Some True, clipboardContent = Some T\<rparr>)"
    using assms(3) by (simp add: summarizeClipboard_def)
  then have "processInput rt input =
      ([ClipboardRead],
       \<lparr>isCommand = True, response = Some acknowledgement, error = None,
        shouldContinueToLLM = Some True, clipboardContent = Some T\<rparr>)"
    using assms(1,2) by (simp add: processInput_clipboard)
  with filled have r: "runCommandOrChat rt input ctx =
      ([ClipboardRead, ModelCall (system ctx) [user_message (summary_prompt T)]],
       case llm_chat rt (system ctx) [user_message (summary_prompt T)] of
         Inl e \<Rightarrow> Inl e
       | Inr summary \<Rightarrow> Inr (acknowledgement @ [newline, newline] @ summary))"
    by (simp add: run_clipboard_text)
  then show "fst (runCommandOrChat rt input ctx) =
          [ClipboardRead,
           ModelCall (system ctx)
             [\<lparr>role = User,
               content = js ''Please provide a concise summary of this clipboard content:''
                         @ [newline, newline] @ T\<rparr>]]"
    by (simp add: user_message_def summary_prompt_def)
  show "\<forall>summary.
              llm_chat rt (system ctx)
                [\<lparr>role = User,
                  content = js ''Please provide a concise summary of this clipboard content:''
                            @ [newline, newline] @ T\<rparr>] = Inr summary
              \<longrightarrow> snd (runCommandOrChat rt input ctx) =
                    Inr (acknowledgement @ [newline, newline] @ summary)"
    using r by (simp add: user_message_def summary_prompt_def)
qed

theorem clipboard_summary_witness:
  "runCommandOrChat
     (mock_runtime (Inr (js ''A grocery list.'')) None
        (ClipboardReadText (Inr (js ''milk, eggs''))) (Inr NotNumber))
     (js ''/clipboard'') empty_context
   = ([ClipboardRead,
       ModelCall (js ''You are Clippy AI, a helpful desktop assistant.'')
         [\<lparr>role = User,
           content = js ''Please provide a concise summary of this clipboard content:''
                     @ [newline, newline] @ js ''milk, eggs''\<rparr>]],
      Inr (acknowledgement @ [newline, newline] @ js ''A grocery list.''))
   \<and> runCommandOrChat
       (mock_runtime (Inr (js ''A grocery list.'')) None
          (ClipboardReadText (Inr (js ''  ''))) (Inr NotNumber))
       (js ''/Clipboard now'') empty_context
     = ([ClipboardRead], Inr ([0x274C] @ js '' Clipboard is empty or contains no text''))"
proof -
  let ?full = "mock_runtime (Inr (js ''A grocery list.'')) None
                 (ClipboardReadText (Inr (js ''milk, eggs''))) (Inr NotNumber)"
  let ?blank = "mock_runtime (Inr (js ''A grocery list.'')) None
                  (ClipboardReadText (Inr (js ''  ''))) (Inr NotNumber)"
  have a1: "startsWith (trim (js ''/clipboard'')) (js ''/'')"
    and a2: "command_name ?full (js ''/clipboard'') = js ''clipboard''"
    and a3: "clipboard ?full = ClipboardReadText (Inr (js ''milk, eggs''))"
    and a4: "js ''milk, eggs'' \<noteq> [] \<and> \<not> list_all isWhiteSpace (js ''milk, eggs'')"
    by (simp_all add: router_defs string_defs)
  have b1: "startsWith (trim (js ''/Clipboard now'')) (js ''/'')"
    and b2: "command_name ?blank (js ''/Clipboard now'') = js ''clipboard''"
    and b3: "clipboard ?blank = ClipboardReadText (Inr (js ''  ''))"
    and b4: "js ''  '' = [] \<or> list_all isWhiteSpace (js ''  '')"
    by (simp_all add: router_defs string_defs)
  have reply: "llm_chat ?full (system empty_context)
      [\<lparr>role = User,
        content = js ''Please provide a concise summary of this clipboard content:''
                  @ [newline, newline] @ js ''milk, eggs''\<rparr>] = Inr (js ''A grocery list.'')"
    by (simp add: mock_runtime_def)
  from clipboard_summary [OF a1 a2 a3, of empty_context] a4 reply
  have full: "runCommandOrChat ?full (js ''/clipboard'') empty_context
      = ([ClipboardRead,
          ModelCall (system empty_context)
            [\<lparr>role = User,
              content = js ''Please provide a concise summary of this clipboard content:''
                        @ [newline, newline] @ js ''milk, eggs''\<rparr>]],
         Inr (acknowledgement @ [newline, newline] @ js ''A grocery list.''))"
    by (metis prod.collapse)
  from clipboard_summary [OF b1 b2 b3, of empty_context] b4
  have blank: "runCommandOrChat ?blank (js ''/Clipboard now'') empty_context
      = ([ClipboardRead], Inr ([0x274C] @ js '' Clipboard is empty or contains no text''))"
    by blast
  show ?thesis
    using full blank by (simp add: empty_context_def)
qed

subsection \<open>/open\<close>

text \<open>
  What a turn of \<open>/open\<close> does: without arguments no call and the missing-URL error;
  with arguments one call of \<open>window.open\<close> with the joined text, behind \<open>https://\<close>
  unless it starts with \<open>http://\<close> or \<open>https://\<close>, then the confirmation with that
  URL, or the error with the thrown message.
\<close>

lemma open_turn:
  assumes "startsWith (trim input) (js ''/'')"
    and "command_name rt input = js ''open''"
  shows
    "(command_args input = [] \<longrightarrow>
        runCommandOrChat rt input ctx =
          ([], Inr ([0x274C] @ js '' Please provide a URL. Example: /open https://google.com'')))
     \<and> (command_args input \<noteq> [] \<longrightarrow>
        normalize_url (command_args input) =
          (if startsWith (join_space (command_args input)) (js ''http://'')
              \<or> startsWith (join_space (command_args input)) (js ''https://'')
           then join_space (command_args input)
           else js ''https://'' @ join_space (command_args input))
        \<and> fst (runCommandOrChat rt input ctx) = [WindowOpen (normalize_url (command_args input))]
        \<and> (window_open rt (normalize_url (command_args input)) = None \<longrightarrow>
              snd (runCommandOrChat rt input ctx) =
                Inr ([0x2705] @ js '' Opened: '' @ normalize_url (command_args input)))
        \<and> (\<forall>e. window_open rt (normalize_url (command_args input)) = Some e \<longrightarrow>
              snd (runCommandOrChat rt input ctx) =
                Inr ([0x274C] @ js '' Failed to open URL: '' @ message e)))
     \<and> normalize_url (command_args (js ''/open example.com'')) = js ''https://example.com''"
proof (intro conjI impI allI)
  assume "command_args input = []"
  then have "processInput rt input = ([], command_error missing_url)"
    using assms by (simp add: processInput_open openWebsite_def Let_def)
  then have "runCommandOrChat rt input ctx = ([], Inr (failure_marker @ missing_url))"
    by (simp add: run_error_branch command_error_def)
  then show "runCommandOrChat rt input ctx =
      ([], Inr ([0x274C] @ js '' Please provide a URL. Example: /open https://google.com''))"
    by (simp add: failure_marker_def missing_url_def js_def)
next
  show "normalize_url (command_args input) =
          (if startsWith (join_space (command_args input)) (js ''http://'')
              \<or> startsWith (join_space (command_args input)) (js ''https://'')
           then join_space (command_args input)
           else js ''https://'' @ join_space (command_args input))"
    by (simp add: normalize_url_def)
next
  assume args: "command_args input \<noteq> []"
  show "fst (runCommandOrChat rt input ctx) = [WindowOpen (normalize_url (command_args input))]"
  proof (cases "window_open rt (normalize_url (command_args input))")
    case None
    with args have "processInput rt input =
        ([WindowOpen (normalize_url (command_args input))],
         command_response ([0x2705] @ js '' Opened: '' @ normalize_url (command_args input)))"
      using assms by (simp add: processInput_open openWebsite_def Let_def)
    then show ?thesis by (simp add: run_response)
  next
    case (Some e)
    with args have "processInput rt input =
        ([WindowOpen (normalize_url (command_args input))],
         command_error (js ''Failed to open URL: '' @ message e))"
      using assms by (simp add: processInput_open openWebsite_def Let_def)
    then show ?thesis by (simp add: run_error_branch command_error_def)
  qed
next
  assume args: "command_args input \<noteq> []"
    and opened: "window_open rt (normalize_url (command_args input)) = None"
  then have "processInput rt input =
      ([WindowOpen (normalize_url (command_args input))],
       command_response ([0x2705] @ js '' Opened: '' @ normalize_url (command_args input)))"
    using assms by (simp add: processInput_open openWebsite_def Let_def)
  then show "snd (runCommandOrChat rt input ctx) =
      Inr ([0x2705] @ js '' Opened: '' @ normalize_url (command_args input))"
    by (simp add: run_response)
next
  fix e
  assume args: "command_args input \<noteq> []"
    and failed: "window_open rt (normalize_url (command_args input)) = Some e"
  then have "processInput rt input =
      ([WindowOpen (normalize_url (command_args input))],
       command_error (js ''Failed to open URL: '' @ message e))"
    using assms by (simp add: processInput_open openWebsite_def Let_def)
  then have "runCommandOrChat rt input ctx =
      ([WindowOpen (normalize_url (command_args input))],
       Inr (failure_marker @ js ''Failed to open URL: '' @ message e))"
    by (simp add: run_error_branch command_error_def)
  then show "snd (runCommandOrChat rt input ctx) =
      Inr ([0x274C] @ js '' Failed to open URL: '' @ message e)"
    by (simp add: failure_marker_def js_def)
next
  show "normalize_url (command_args (js ''/open example.com'')) = js ''https://example.com''"
    by (simp add: normalize_url_def command_args_def command_parts_def string_defs)
qed

text \<open>
  C6. The claim has \<open>https://\<close> put in front exactly when the joined text lacks a
  scheme, and the comment of line 161 says so too (\<open>Add https:// if no protocol
  specified\<close>). The test of line 162 looks for the two prefixes \<open>http://\<close> and
  \<open>https://\<close> only, in lower case: at \<open>/open ftp://example.com\<close> the text has a
  scheme and the code opens \<open>https://ftp://example.com\<close> and reports it opened, and
  \<open>/open HTTP://EXAMPLE.COM\<close> is prefixed in the same way.
\<close>

theorem open_prefixes_a_url_with_scheme:
  "runCommandOrChat (mock_runtime (Inr (js ''Hi!'')) None ClipboardUnavailable (Inr NotNumber))
     (js ''/open ftp://example.com'') empty_context
   = ([WindowOpen (js ''https://ftp://example.com'')],
      Inr ([0x2705] @ js '' Opened: https://ftp://example.com''))
   \<and> runCommandOrChat
       (mock_runtime (Inr (js ''Hi!'')) None ClipboardUnavailable (Inr NotNumber))
       (js ''/open HTTP://EXAMPLE.COM'') empty_context
     = ([WindowOpen (js ''https://HTTP://EXAMPLE.COM'')],
        Inr ([0x2705] @ js '' Opened: https://HTTP://EXAMPLE.COM''))"
  by (simp add: router_defs string_defs Let_def)

subsection \<open>/calc\<close>

text \<open>An expression that fails the safety check is never handed to the engine; one that
  passes and evaluates to a finite number is echoed with the number as the engine renders
  it.\<close>

lemma calculate_rejected:
  assumes "args \<noteq> []" and "\<not> safety_check (join_space args)"
  shows "calculate rt args = ([], command_error (invalid_expression (join_space args)))"
  using assms by (simp add: calculate_def calculate_try_def Let_def)

lemma calculate_formats_result:
  assumes "args \<noteq> []" and "safety_check (join_space args)"
    and "run_function rt (function_source (join_space args)) = Inr (Number True shown)"
  shows "calculate rt args =
    ([Evaluate (function_source (join_space args))],
     command_response ([0xD83E, 0xDDEE] @ js '' **'' @ join_space args @ js ''** = **'' @ shown
                       @ js ''**''))"
  using assms by (simp add: calculate_def calculate_try_def Let_def)

lemma allowed_char_spec: "allowed_char c \<longleftrightarrow> spec_whitelist c \<or> isWhiteSpace c"
  by (auto simp: allowed_char_def spec_whitelist_def isWhiteSpace_def)

text \<open>
  C4, as the code has it. For \<open>/calc\<close> or \<open>/calculate\<close> with arguments, if the joined
  expression holds a character outside the class of the source, \<open>[0-9+\-*/().\s]\<close>, the
  turn ends with the error \<open>Invalid math expression: "..."\<close> and its trace is empty: the
  engine is not called. That class is the specification's (digits, the four operators,
  parentheses, dot, space) together with every other white space character.
  \<open>/calc 2; DROP TABLE\<close> is rejected this way.
\<close>

theorem whitelist_checked_before_evaluation:
  "(startsWith (trim input) (js ''/'')
      \<and> (command_name rt input = js ''calc'' \<or> command_name rt input = js ''calculate'')
      \<and> command_args input \<noteq> []
      \<and> (\<exists>c \<in> set (join_space (command_args input)). \<not> allowed_char c)
    \<longrightarrow> runCommandOrChat rt input ctx =
          ([], Inr ([0x274C] @ js '' Invalid math expression: '' @ [dquote]
                    @ join_space (command_args input) @ [dquote])))
   \<and> (\<forall>c. allowed_char c \<longleftrightarrow> spec_whitelist c \<or> isWhiteSpace c)
   \<and> runCommandOrChat rt (js ''/calc 2; DROP TABLE'') ctx =
        ([], Inr ([0x274C] @ js '' Invalid math expression: '' @ [dquote]
                  @ js ''2; DROP TABLE'' @ [dquote]))"
proof (intro conjI impI allI)
  assume a: "startsWith (trim input) (js ''/'')
      \<and> (command_name rt input = js ''calc'' \<or> command_name rt input = js ''calculate'')
      \<and> command_args input \<noteq> []
      \<and> (\<exists>c \<in> set (join_space (command_args input)). \<not> allowed_char c)"
  then have "\<not> safety_check (join_space (command_args input))"
    by (auto simp: safety_check_def list_all_iff)
  with a have "calculate rt (command_args input) =
      ([], command_error (invalid_expression (join_space (command_args input))))"
    by (simp add: calculate_rejected)
  with a have "processInput rt input =
      ([], command_error (invalid_expression (join_space (command_args input))))"
    by (simp add: processInput_calc)
  then have "runCommandOrChat rt input ctx =
      ([], Inr (failure_marker @ invalid_expression (join_space (command_args input))))"
    by (simp add: run_error_branch command_error_def)
  then show "runCommandOrChat rt input ctx =
          ([], Inr ([0x274C] @ js '' Invalid math expression: '' @ [dquote]
                    @ join_space (command_args input) @ [dquote]))"
    by (simp add: failure_marker_def invalid_expression_def js_def)
next
  fix c
  show "allowed_char c \<longleftrightarrow> spec_whitelist c \<or> isWhiteSpace c"
    by (rule allowed_char_spec)
next
  show "runCommandOrChat rt (js ''/calc 2; DROP TABLE'') ctx =
        ([], Inr ([0x274C] @ js '' Invalid math expression: '' @ [dquote]
                  @ js ''2; DROP TABLE'' @ [dquote]))"
    by (simp add: router_defs string_defs Let_def)
qed

theorem whitelist_checked_before_evaluation_witness:
  "runCommandOrChat
     (mock_runtime (Inr (js ''Hi!'')) None ClipboardUnavailable (Inr (Number True (js ''4''))))
     (js ''/calculate 2 + x'') empty_context
   = ([], Inr ([0x274C] @ js '' Invalid math expression: '' @ [dquote] @ js ''2 + x''
               @ [dquote]))"
proof -
  let ?rt = "mock_runtime (Inr (js ''Hi!'')) None ClipboardUnavailable
               (Inr (Number True (js ''4'')))"
  have j: "join_space (command_args (js ''/calculate 2 + x'')) = js ''2 + x''"
    by (simp add: router_defs string_defs)
  have "\<not> allowed_char (of_char CHR ''x'')"
    by (simp add: allowed_char_def isWhiteSpace_def)
  moreover have "of_char CHR ''x'' \<in> set (js ''2 + x'')"
    by (simp add: js_def)
  ultimately have outside: "\<exists>c \<in> set (join_space (command_args (js ''/calculate 2 + x''))).
      \<not> allowed_char c"
    unfolding j by blast
  have h: "startsWith (trim (js ''/calculate 2 + x'')) (js ''/'')
      \<and> (command_name ?rt (js ''/calculate 2 + x'') = js ''calc''
         \<or> command_name ?rt (js ''/calculate 2 + x'') = js ''calculate'')
      \<and> command_args (js ''/calculate 2 + x'') \<noteq> []"
    by (simp add: router_defs string_defs)
  from h outside whitelist_checked_before_evaluation [of "js ''/calculate 2 + x''" ?rt empty_context]
  have "runCommandOrChat ?rt (js ''/calculate 2 + x'') empty_context =
          ([], Inr ([0x274C] @ js '' Invalid math expression: '' @ [dquote]
                    @ join_space (command_args (js ''/calculate 2 + x'')) @ [dquote]))"
    by blast
  then show ?thesis
    unfolding j .
qed

text \<open>
  The claim C4 as stated takes the space for the only blank of the whitelist. A tab is
  outside that list, and an expression with a tab passes the check of the source and is
  evaluated.
\<close>

theorem tab_is_evaluated_counterexample:
  "\<not> spec_whitelist 0x09
   \<and> 0x09 \<in> set (join_space (command_args (js ''/calc 2'' @ [0x09] @ js ''+2'')))
   \<and> runCommandOrChat
       (mock_runtime (Inr (js ''Hi!'')) None ClipboardUnavailable
          (Inr (Number True (js ''4''))))
       (js ''/calc 2'' @ [0x09] @ js ''+2'') empty_context
     = ([Evaluate ([dquote] @ js ''use strict'' @ [dquote] @ js ''; return (2'' @ [0x09]
                   @ js ''+2)'')],
        Inr ([0xD83E, 0xDDEE] @ js '' **2'' @ [0x09] @ js ''+2** = **4**''))"
  by (simp add: router_defs string_defs spec_whitelist_def Let_def)

text \<open>
  C10. \<open>calculate\<close> returns a command result for every argument list. Without arguments
  it is the missing-expression error. With arguments, the body of the \<open>try\<close> throws
  exactly when the safety check fails, the engine throws (a syntax error, or an exception
  while running), or the result is not a number or not finite; whatever it throws is
  caught and the result is the one error \<open>Invalid math expression: "<expression>"\<close>; and
  when it does not throw its result is returned. The result is always a command's, with
  either an error or a response.
\<close>

theorem calculate_total:
  "calculate rt [] =
     ([], command_error (js ''Please provide a math expression. Example: /calc 2 + 2''))
   \<and> (args \<noteq> [] \<longrightarrow>
        ((\<exists>e. snd (calculate_try rt (join_space args)) = Inl e)
          \<longleftrightarrow> \<not> safety_check (join_space args)
              \<or> (\<exists>e. run_function rt (function_source (join_space args)) = Inl e)
              \<or> run_function rt (function_source (join_space args)) = Inr NotNumber
              \<or> (\<exists>shown. run_function rt (function_source (join_space args))
                            = Inr (Number False shown)))
        \<and> ((\<exists>e. snd (calculate_try rt (join_space args)) = Inl e)
            \<longrightarrow> snd (calculate rt args) =
                  command_error (js ''Invalid math expression: '' @ [dquote]
                                 @ join_space args @ [dquote]))
        \<and> (\<forall>r. snd (calculate_try rt (join_space args)) = Inr r
            \<longrightarrow> snd (calculate rt args) = r))
   \<and> isCommand (snd (calculate rt args))
   \<and> (error (snd (calculate rt args)) = None) \<noteq> (response (snd (calculate rt args)) = None)"
proof -
  have empty: "calculate rt [] =
     ([], command_error (js ''Please provide a math expression. Example: /calc 2 + 2''))"
    by (simp add: calculate_def missing_expression_def)
  have throws: "(\<exists>e. snd (calculate_try rt expression) = Inl e)
          \<longleftrightarrow> \<not> safety_check expression
              \<or> (\<exists>e. run_function rt (function_source expression) = Inl e)
              \<or> run_function rt (function_source expression) = Inr NotNumber
              \<or> (\<exists>shown. run_function rt (function_source expression)
                            = Inr (Number False shown))" for expression
    by (auto simp: calculate_try_def split: sum.splits js_value.splits)
  have caught: "snd (calculate rt args) =
                  command_error (js ''Invalid math expression: '' @ [dquote]
                                 @ join_space args @ [dquote])"
    if "args \<noteq> []" and "snd (calculate_try rt (join_space args)) = Inl e" for e
    using that
    by (cases "calculate_try rt (join_space args)")
       (simp add: calculate_def Let_def invalid_expression_def)
  have passed: "snd (calculate rt args) = r"
    if "args \<noteq> []" and "snd (calculate_try rt (join_space args)) = Inr r" for r
    using that
    by (cases "calculate_try rt (join_space args)") (simp add: calculate_def Let_def)
  have shape: "isCommand (snd (calculate rt args))
      \<and> (error (snd (calculate rt args)) = None) \<noteq> (response (snd (calculate rt args)) = None)"
    by (simp add: calculate_def calculate_try_def Let_def command_error_def command_response_def
        split: sum.splits js_value.splits)
  show ?thesis
    using empty throws [of "join_space args"] caught passed shape by blast
qed

theorem calculate_total_witness:
  "snd (calculate
          (mock_runtime (Inr (js ''Hi!'')) None ClipboardUnavailable
             (Inl (Error (js ''Unexpected token''))))
          [js ''2'', js ''+''])
   = command_error (js ''Invalid math expression: '' @ [dquote] @ js ''2 +'' @ [dquote])
   \<and> snd (calculate
          (mock_runtime (Inr (js ''Hi!'')) None ClipboardUnavailable
             (Inr (Number True (js ''8''))))
          [js ''2'', js ''+'', js ''2'', js ''*'', js ''3''])
     = command_response ([0xD83E, 0xDDEE] @ js '' **2 + 2 * 3** = **8**'')"
proof -
  let ?broken = "mock_runtime (Inr (js ''Hi!'')) None ClipboardUnavailable
                   (Inl (Error (js ''Unexpected token'')))"
  let ?eight = "mock_runtime (Inr (js ''Hi!'')) None ClipboardUnavailable
                  (Inr (Number True (js ''8'')))"
  have j: "join_space [js ''2'', js ''+''] = js ''2 +''"
    by (simp add: string_defs)
  have thrown: "\<exists>e. snd (calculate_try ?broken (join_space [js ''2'', js ''+''])) = Inl e"
    by (simp add: router_defs string_defs)
  have passed: "snd (calculate_try ?eight
                       (join_space [js ''2'', js ''+'', js ''2'', js ''*'', js ''3'']))
      = Inr (command_response ([0xD83E, 0xDDEE] @ js '' **2 + 2 * 3** = **8**''))"
    by (simp add: router_defs string_defs)
  have n: "[js ''2'', js ''+''] \<noteq> []"
    and m: "[js ''2'', js ''+'', js ''2'', js ''*'', js ''3''] \<noteq> []"
    by simp_all
  from n thrown calculate_total [of ?broken "[js ''2'', js ''+'']"]
  have a: "snd (calculate ?broken [js ''2'', js ''+'']) =
      command_error (js ''Invalid math expression: '' @ [dquote]
                     @ join_space [js ''2'', js ''+''] @ [dquote])"
    by blast
  from m passed calculate_total [of ?eight "[js ''2'', js ''+'', js ''2'', js ''*'', js ''3'']"]
  have b: "snd (calculate ?eight [js ''2'', js ''+'', js ''2'', js ''*'', js ''3''])
      = command_response ([0xD83E, 0xDDEE] @ js '' **2 + 2 * 3** = **8**'')"
    by blast
  show ?thesis
    using a b unfolding j by simp
qed

section \<open>Failures of a command\<close>

text \<open>What each handler returns when it fails, and what the turn makes of it (line 64):
  the handler's error behind the failure marker, returned as the turn's text.\<close>

lemma run_command_error:
  assumes "processInput rt input = (tr, command_error e)"
  shows "runCommandOrChat rt input ctx = (tr, Inr ([0x274C] @ js '' '' @ e))"
proof -
  have "runCommandOrChat rt input ctx = (tr, Inr (failure_marker @ e))"
    using assms by (simp add: run_error_branch command_error_def)
  then show ?thesis
    by (simp add: failure_marker_def)
qed

lemma openWebsite_no_args: "openWebsite rt [] = ([], command_error missing_url)"
  by (simp add: openWebsite_def)

lemma openWebsite_throws:
  assumes "args \<noteq> []" and "window_open rt (normalize_url args) = Some e"
  shows "openWebsite rt args =
    ([WindowOpen (normalize_url args)], command_error (js ''Failed to open URL: '' @ message e))"
  using assms by (simp add: openWebsite_def Let_def)

lemma calculate_no_args: "calculate rt [] = ([], command_error missing_expression)"
  by (simp add: calculate_def)

lemma calculate_failed:
  assumes "args \<noteq> []" and "safety_check (join_space args)"
    and "(\<exists>e. run_function rt (function_source (join_space args)) = Inl e)
         \<or> run_function rt (function_source (join_space args)) = Inr NotNumber
         \<or> (\<exists>shown. run_function rt (function_source (join_space args))
                       = Inr (Number False shown))"
  shows "calculate rt args =
    ([Evaluate (function_source (join_space args))],
     command_error (invalid_expression (join_space args)))"
  using assms by (auto simp: calculate_def calculate_try_def Let_def)

lemma summarizeClipboard_test_throws:
  "clipboard rt = ClipboardTestThrows e \<Longrightarrow>
     summarizeClipboard rt = ([], command_error clipboard_denied)"
  by (simp add: summarizeClipboard_def)

lemma summarizeClipboard_unavailable:
  "clipboard rt = ClipboardUnavailable \<Longrightarrow>
     summarizeClipboard rt = ([], command_error clipboard_unavailable)"
  by (simp add: summarizeClipboard_def)

lemma summarizeClipboard_rejects:
  "clipboard rt = ClipboardReadText (Inl e) \<Longrightarrow>
     summarizeClipboard rt = ([ClipboardRead], command_error clipboard_denied)"
  by (simp add: summarizeClipboard_def)

lemma summarizeClipboard_blank:
  assumes "clipboard rt = ClipboardReadText (Inr T)" and "list_all isWhiteSpace T"
  shows "summarizeClipboard rt = ([ClipboardRead], command_error clipboard_empty)"
proof -
  from assms(2) have "trim T = []"
    by (simp add: trim_empty_iff)
  with assms(1) show ?thesis
    by (simp add: summarizeClipboard_def)
qed

text \<open>The same, for the whole turn: one lemma for each way a command can fail.\<close>

lemma turn_unknown:
  assumes "startsWith (trim input) (js ''/'')"
    and "command_name rt input
        \<notin> {js ''help'', js ''open'', js ''calc'', js ''calculate'', js ''clipboard''}"
  shows "runCommandOrChat rt input ctx =
        ([], Inr ([0x274C] @ js '' Unknown command: /'' @ command_name rt input
          @ js ''. Type /help for available commands.''))"
proof -
  from assms have "processInput rt input =
      ([], command_error (unknown_command (command_name rt input)))"
    by (simp add: unknown_command_result)
  then show ?thesis
    by (simp add: run_command_error unknown_command_def js_def)
qed

lemma turn_open_empty:
  assumes "startsWith (trim input) (js ''/'')"
    and "command_name rt input = js ''open''"
    and "command_args input = []"
  shows "runCommandOrChat rt input ctx =
        ([], Inr ([0x274C] @ js '' Please provide a URL. Example: /open https://google.com''))"
proof -
  from assms have "processInput rt input =
      ([], command_error missing_url)"
    by (simp add: processInput_open openWebsite_no_args)
  then show ?thesis
    by (simp add: run_command_error missing_url_def js_def)
qed

lemma turn_open_failed:
  assumes "startsWith (trim input) (js ''/'')"
    and "command_name rt input = js ''open''"
    and "command_args input \<noteq> []
        \<and> window_open rt (normalize_url (command_args input)) = Some e"
  shows "runCommandOrChat rt input ctx =
        ([WindowOpen (normalize_url (command_args input))], Inr ([0x274C] @ js '' Failed to open URL: '' @ message e))"
proof -
  from assms have "processInput rt input =
      ([WindowOpen (normalize_url (command_args input))],
       command_error (js ''Failed to open URL: '' @ message e))"
    by (simp add: processInput_open openWebsite_throws)
  then show ?thesis
    by (simp add: run_command_error js_def)
qed

lemma turn_calc_empty:
  assumes "startsWith (trim input) (js ''/'')"
    and "command_name rt input = js ''calc'' \<or> command_name rt input = js ''calculate''"
    and "command_args input = []"
  shows "runCommandOrChat rt input ctx =
        ([], Inr ([0x274C] @ js '' Please provide a math expression. Example: /calc 2 + 2''))"
proof -
  from assms have "processInput rt input =
      ([], command_error missing_expression)"
    by (simp add: processInput_calc calculate_no_args)
  then show ?thesis
    by (simp add: run_command_error missing_expression_def js_def)
qed

lemma turn_calc_rejected:
  assumes "startsWith (trim input) (js ''/'')"
    and "command_name rt input = js ''calc'' \<or> command_name rt input = js ''calculate''"
    and "command_args input \<noteq> [] \<and> \<not> safety_check (join_space (command_args input))"
  shows "runCommandOrChat rt input ctx =
        ([], Inr ([0x274C] @ js '' Invalid math expression: '' @ [dquote]
          @ join_space (command_args input) @ [dquote]))"
proof -
  from assms have "processInput rt input =
      ([], command_error (invalid_expression (join_space (command_args input))))"
    by (simp add: processInput_calc calculate_rejected)
  then show ?thesis
    by (simp add: run_command_error invalid_expression_def js_def)
qed

lemma turn_calc_failed:
  assumes "startsWith (trim input) (js ''/'')"
    and "command_name rt input = js ''calc'' \<or> command_name rt input = js ''calculate''"
    and "command_args input \<noteq> [] \<and> safety_check (join_space (command_args input))
        \<and> ((\<exists>e. run_function rt (function_source (join_space (command_args input))) = Inl e)
           \<or> run_function rt (function_source (join_space (command_args input))) = Inr NotNumber
           \<or> (\<exists>shown. run_function rt (function_source (join_space (command_args input))) = Inr (Number False shown)))"
  shows "runCommandOrChat rt input ctx =
        ([Evaluate (function_source (join_space (command_args input)))], Inr ([0x274C] @ js '' Invalid math expression: '' @ [dquote]
          @ join_space (command_args input) @ [dquote]))"
proof -
  from assms(3) have "calculate rt (command_args input) =
      ([Evaluate (function_source (join_space (command_args input)))],
       command_error (invalid_expression (join_space (command_args input))))"
    by (intro calculate_failed) simp_all
  with assms(1,2) have "processInput rt input =
      ([Evaluate (function_source (join_space (command_args input)))],
       command_error (invalid_expression (join_space (command_args input))))"
    by (simp add: processInput_calc)
  then show ?thesis
    by (simp add: run_command_error invalid_expression_def js_def)
qed

lemma turn_clip_throws:
  assumes "startsWith (trim input) (js ''/'')"
    and "command_name rt input = js ''clipboard''"
    and "\<exists>e. clipboard rt = ClipboardTestThrows e"
  shows "runCommandOrChat rt input ctx =
        ([], Inr ([0x274C] @ js '' Clipboard access denied. Try copying text and asking me to summarize it directly.''))"
proof -
  from assms(3) have "summarizeClipboard rt = ([], command_error clipboard_denied)"
    by (auto simp: summarizeClipboard_test_throws)
  with assms(1,2) have "processInput rt input = ([], command_error clipboard_denied)"
    by (simp add: processInput_clipboard)
  then show ?thesis
    by (simp add: run_command_error clipboard_denied_def js_def)
qed

lemma turn_clip_unavailable:
  assumes "startsWith (trim input) (js ''/'')"
    and "command_name rt input = js ''clipboard''"
    and "clipboard rt = ClipboardUnavailable"
  shows "runCommandOrChat rt input ctx =
        ([], Inr ([0x274C] @ js '' Clipboard access not available. Try copying text and asking me to summarize it directly.''))"
proof -
  from assms(3) have "summarizeClipboard rt = ([], command_error clipboard_unavailable)"
    by (auto simp: summarizeClipboard_unavailable)
  with assms(1,2) have "processInput rt input = ([], command_error clipboard_unavailable)"
    by (simp add: processInput_clipboard)
  then show ?thesis
    by (simp add: run_command_error clipboard_unavailable_def js_def)
qed

lemma turn_clip_rejects:
  assumes "startsWith (trim input) (js ''/'')"
    and "command_name rt input = js ''clipboard''"
    and "\<exists>e. clipboard rt = ClipboardReadText (Inl e)"
  shows "runCommandOrChat rt input ctx =
        ([ClipboardRead], Inr ([0x274C] @ js '' Clipboard access denied. Try copying text and asking me to summarize it directly.''))"
proof -
  from assms(3) have "summarizeClipboard rt = ([ClipboardRead], command_error clipboard_denied)"
    by (auto simp: summarizeClipboard_rejects)
  with assms(1,2) have "processInput rt input = ([ClipboardRead], command_error clipboard_denied)"
    by (simp add: processInput_clipboard)
  then show ?thesis
    by (simp add: run_command_error clipboard_denied_def js_def)
qed

lemma turn_clip_blank:
  assumes "startsWith (trim input) (js ''/'')"
    and "command_name rt input = js ''clipboard''"
    and "clipboard rt = ClipboardReadText (Inr T) \<and> list_all isWhiteSpace T"
  shows "runCommandOrChat rt input ctx =
        ([ClipboardRead], Inr ([0x274C] @ js '' Clipboard is empty or contains no text''))"
proof -
  from assms(3) have "summarizeClipboard rt = ([ClipboardRead], command_error clipboard_empty)"
    by (auto simp: summarizeClipboard_blank)
  with assms(1,2) have "processInput rt input = ([ClipboardRead], command_error clipboard_empty)"
    by (simp add: processInput_clipboard)
  then show ?thesis
    by (simp add: run_command_error clipboard_empty_def js_def)
qed

lemma command_failures:
  "(startsWith (trim input) (js ''/'') \<longrightarrow>
    (command_name rt input
        \<notin> {js ''help'', js ''open'', js ''calc'', js ''calculate'', js ''clipboard''}
      \<longrightarrow> runCommandOrChat rt input ctx =
        ([], Inr ([0x274C] @ js '' Unknown command: /'' @ command_name rt input
          @ js ''. Type /help for available commands.'')))
    \<and> (command_name rt input = js ''open'' \<longrightarrow>
      (command_args input = [] \<longrightarrow> runCommandOrChat rt input ctx =
        ([], Inr ([0x274C] @ js '' Please provide a URL. Example: /open https://google.com'')))
      \<and> (\<forall>e. command_args input \<noteq> []
        \<and> window_open rt (normalize_url (command_args input)) = Some e
      \<longrightarrow> runCommandOrChat rt input ctx =
        ([WindowOpen (normalize_url (command_args input))], Inr ([0x274C] @ js '' Failed to open URL: '' @ message e))))
    \<and> (command_name rt input = js ''calc'' \<or> command_name rt input = js ''calculate'' \<longrightarrow>
      (command_args input = [] \<longrightarrow> runCommandOrChat rt input ctx =
        ([], Inr ([0x274C] @ js '' Please provide a math expression. Example: /calc 2 + 2'')))
      \<and> (command_args input \<noteq> [] \<and> \<not> safety_check (join_space (command_args input))
      \<longrightarrow> runCommandOrChat rt input ctx =
        ([], Inr ([0x274C] @ js '' Invalid math expression: '' @ [dquote]
          @ join_space (command_args input) @ [dquote])))
      \<and> (command_args input \<noteq> [] \<and> safety_check (join_space (command_args input))
        \<and> ((\<exists>e. run_function rt (function_source (join_space (command_args input))) = Inl e)
           \<or> run_function rt (function_source (join_space (command_args input))) = Inr NotNumber
           \<or> (\<exists>shown. run_function rt (function_source (join_space (command_args input))) = Inr (Number False shown)))
      \<longrightarrow> runCommandOrChat rt input ctx =
        ([Evaluate (function_source (join_space (command_args input)))], Inr ([0x274C] @ js '' Invalid math expression: '' @ [dquote]
          @ join_space (command_args input) @ [dquote]))))
    \<and> (command_name rt input = js ''clipboard'' \<longrightarrow>
      ((\<exists>e. clipboard rt = ClipboardTestThrows e)
      \<longrightarrow> runCommandOrChat rt input ctx =
        ([], Inr ([0x274C] @ js '' Clipboard access denied. Try copying text and asking me to summarize it directly.'')))
      \<and> (clipboard rt = ClipboardUnavailable
      \<longrightarrow> runCommandOrChat rt input ctx =
        ([], Inr ([0x274C] @ js '' Clipboard access not available. Try copying text and asking me to summarize it directly.'')))
      \<and> ((\<exists>e. clipboard rt = ClipboardReadText (Inl e))
      \<longrightarrow> runCommandOrChat rt input ctx =
        ([ClipboardRead], Inr ([0x274C] @ js '' Clipboard access denied. Try copying text and asking me to summarize it directly.'')))
      \<and> (\<forall>T. clipboard rt = ClipboardReadText (Inr T) \<and> list_all isWhiteSpace T
      \<longrightarrow> runCommandOrChat rt input ctx =
        ([ClipboardRead], Inr ([0x274C] @ js '' Clipboard is empty or contains no text'')))))"
  (is "?S \<longrightarrow> ?U \<and> ?O \<and> ?C \<and> ?K")
proof
  assume s: ?S
  have u: ?U
    using turn_unknown [OF s] by blast
  have o: ?O
    using turn_open_empty [OF s] turn_open_failed [OF s] by blast
  have c: ?C
    using turn_calc_empty [OF s] turn_calc_rejected [OF s] turn_calc_failed [OF s] by blast
  have k: ?K
    using turn_clip_throws [OF s] turn_clip_unavailable [OF s] turn_clip_rejects [OF s]
      turn_clip_blank [OF s]
    by blast
  show "?U \<and> ?O \<and> ?C \<and> ?K"
    by (rule conjI [OF u conjI [OF o conjI [OF c k]]])
qed

text \<open>
  C7. A command that fails ends the turn with its own error: the turn returns the failure
  marker followed by the error's text, the trace holds no call of the Model Client, and
  nothing is thrown. This holds for every result of \<open>processInput\<close> that carries an error,
  and each failure of a command produces such a result: a command name the router does not
  know (echoed in lower case, as \<open>command_name\<close> gives it), \<open>/open\<close> without a URL or
  with \<open>window.open\<close> throwing, \<open>/calc\<close> without an expression, with one the safety check
  refuses, or with one the engine throws on or evaluates to something that is not a finite
  number, and \<open>/clipboard\<close> when the clipboard's test throws, the clipboard is not there,
  the read is refused, or the text read is blank.
\<close>

theorem command_errors_stay_local:
  "(\<forall>tr result e. processInput rt input = (tr, result) \<and> isCommand result
      \<and> error result = Some e
    \<longrightarrow> runCommandOrChat rt input ctx = (tr, Inr ([0x274C] @ js '' '' @ e))
        \<and> \<not> list_ex is_model_call (fst (runCommandOrChat rt input ctx)))
   \<and> (startsWith (trim input) (js ''/'') \<longrightarrow>
    (command_name rt input
        \<notin> {js ''help'', js ''open'', js ''calc'', js ''calculate'', js ''clipboard''}
      \<longrightarrow> runCommandOrChat rt input ctx =
        ([], Inr ([0x274C] @ js '' Unknown command: /'' @ command_name rt input
          @ js ''. Type /help for available commands.'')))
    \<and> (command_name rt input = js ''open'' \<longrightarrow>
      (command_args input = [] \<longrightarrow> runCommandOrChat rt input ctx =
        ([], Inr ([0x274C] @ js '' Please provide a URL. Example: /open https://google.com'')))
      \<and> (\<forall>e. command_args input \<noteq> []
        \<and> window_open rt (normalize_url (command_args input)) = Some e
      \<longrightarrow> runCommandOrChat rt input ctx =
        ([WindowOpen (normalize_url (command_args input))], Inr ([0x274C] @ js '' Failed to open URL: '' @ message e))))
    \<and> (command_name rt input = js ''calc'' \<or> command_name rt input = js ''calculate'' \<longrightarrow>
      (command_args input = [] \<longrightarrow> runCommandOrChat rt input ctx =
        ([], Inr ([0x274C] @ js '' Please provide a math expression. Example: /calc 2 + 2'')))
      \<and> (command_args input \<noteq> [] \<and> \<not> safety_check (join_space (command_args input))
      \<longrightarrow> runCommandOrChat rt input ctx =
        ([], Inr ([0x274C] @ js '' Invalid math expression: '' @ [dquote]
          @ join_space (command_args input) @ [dquote])))
      \<and> (command_args input \<noteq> [] \<and> safety_check (join_space (command_args input))
        \<and> ((\<exists>e. run_function rt (function_source (join_space (command_args input))) = Inl e)
           \<or> run_function rt (function_source (join_space (command_args input))) = Inr NotNumber
           \<or> (\<exists>shown. run_function rt (function_source (join_space (command_args input))) = Inr (Number False shown)))
      \<longrightarrow> runCommandOrChat rt input ctx =
        ([Evaluate (function_source (join_space (command_args input)))], Inr ([0x274C] @ js '' Invalid math expression: '' @ [dquote]
          @ join_space (command_args input) @ [dquote]))))
    \<and> (command_name rt input = js ''clipboard'' \<longrightarrow>
      ((\<exists>e. clipboard rt = ClipboardTestThrows e)
      \<longrightarrow> runCommandOrChat rt input ctx =
        ([], Inr ([0x274C] @ js '' Clipboard access denied. Try copying text and asking me to summarize it directly.'')))
      \<and> (clipboard rt = ClipboardUnavailable
      \<longrightarrow> runCommandOrChat rt input ctx =
        ([], Inr ([0x274C] @ js '' Clipboard access not available. Try copying text and asking me to summarize it directly.'')))
      \<and> ((\<exists>e. clipboard rt = ClipboardReadText (Inl e))
      \<longrightarrow> runCommandOrChat rt input ctx =
        ([ClipboardRead], Inr ([0x274C] @ js '' Clipboard access denied. Try copying text and asking me to summarize it directly.'')))
      \<and> (\<forall>T. clipboard rt = ClipboardReadText (Inr T) \<and> list_all isWhiteSpace T
      \<longrightarrow> runCommandOrChat rt input ctx =
        ([ClipboardRead], Inr ([0x274C] @ js '' Clipboard is empty or contains no text'')))))
   \<and> runCommandOrChat rt (js ''/frobnicate'') ctx =
      ([], Inr ([0x274C] @ js '' Unknown command: /frobnicate. Type /help for available commands.''))"
  (is "?G \<and> ?B \<and> ?E")
proof -
  have general: ?G
  proof (intro allI impI)
    fix tr result e
    assume a: "processInput rt input = (tr, result) \<and> isCommand result \<and> error result = Some e"
    then have r: "runCommandOrChat rt input ctx = (tr, Inr (failure_marker @ e))"
      by (simp add: run_error_branch)
    have "\<not> list_ex is_model_call (fst (processInput rt input))"
      by (rule processInput_no_model_call)
    with a r show "runCommandOrChat rt input ctx = (tr, Inr ([0x274C] @ js '' '' @ e))
          \<and> \<not> list_ex is_model_call (fst (runCommandOrChat rt input ctx))"
      by (simp add: failure_marker_def)
  qed
  have failures: ?B
    by (rule command_failures)
  have example: ?E
    by (simp add: router_defs string_defs)
  show ?thesis
    by (rule conjI [OF general conjI [OF failures example]])
qed

theorem command_errors_stay_local_witness:
  "runCommandOrChat (mock_runtime (Inr (js ''Hi!'')) None ClipboardUnavailable (Inr NotNumber))
       (js ''/Dance now'') empty_context
     = ([], Inr ([0x274C] @ js '' Unknown command: /dance. Type /help for available commands.''))
   \<and> runCommandOrChat (mock_runtime (Inr (js ''Hi!'')) None ClipboardUnavailable (Inr NotNumber))
       (js ''/open'') empty_context
     = ([], Inr ([0x274C] @ js '' Please provide a URL. Example: /open https://google.com''))
   \<and> runCommandOrChat (mock_runtime (Inr (js ''Hi!'')) None ClipboardUnavailable (Inr NotNumber))
       (js ''/clipboard'') empty_context
     = ([], Inr ([0x274C] @ js '' Clipboard access not available. Try copying text and asking me to summarize it directly.''))
   \<and> runCommandOrChat
       (mock_runtime (Inr (js ''Hi!'')) (Some (Error (js ''Blocked''))) ClipboardUnavailable
          (Inl (Error (js ''Unexpected token''))))
       (js ''/open example.com'') empty_context
     = ([WindowOpen (js ''https://example.com'')],
        Inr ([0x274C] @ js '' Failed to open URL: Blocked''))
   \<and> runCommandOrChat
       (mock_runtime (Inr (js ''Hi!'')) (Some (Error (js ''Blocked''))) ClipboardUnavailable
          (Inl (Error (js ''Unexpected token''))))
       (js ''/calc 2 +'') empty_context
     = ([Evaluate ([dquote] @ js ''use strict'' @ [dquote] @ js ''; return (2 +)'')],
        Inr ([0x274C] @ js '' Invalid math expression: '' @ [dquote] @ js ''2 +'' @ [dquote]))"
proof -
  let ?quiet = "mock_runtime (Inr (js ''Hi!'')) None ClipboardUnavailable (Inr NotNumber)"
  let ?broken = "mock_runtime (Inr (js ''Hi!'')) (Some (Error (js ''Blocked'')))
                   ClipboardUnavailable (Inl (Error (js ''Unexpected token'')))"
  have dance: "startsWith (trim (js ''/Dance now'')) (js ''/'')"
    and dance_name: "command_name ?quiet (js ''/Dance now'') = js ''dance''"
    by (simp_all add: router_defs string_defs)
  have dance_unknown: "command_name ?quiet (js ''/Dance now'')
      \<notin> {js ''help'', js ''open'', js ''calc'', js ''calculate'', js ''clipboard''}"
    unfolding dance_name by (simp add: js_def)
  have bare: "startsWith (trim (js ''/open'')) (js ''/'')"
    and bare_name: "command_name ?quiet (js ''/open'') = js ''open''"
    and bare_args: "command_args (js ''/open'') = []"
    by (simp_all add: router_defs string_defs)
  have clip: "startsWith (trim (js ''/clipboard'')) (js ''/'')"
    and clip_name: "command_name ?quiet (js ''/clipboard'') = js ''clipboard''"
    and clip_state: "clipboard ?quiet = ClipboardUnavailable"
    by (simp_all add: router_defs string_defs)
  have site: "startsWith (trim (js ''/open example.com'')) (js ''/'')"
    and site_name: "command_name ?broken (js ''/open example.com'') = js ''open''"
    and site_url: "normalize_url (command_args (js ''/open example.com'')) = js ''https://example.com''"
    and site_args: "command_args (js ''/open example.com'') \<noteq> []"
    by (simp_all add: router_defs string_defs)
  have site_blocked: "command_args (js ''/open example.com'') \<noteq> []
      \<and> window_open ?broken (normalize_url (command_args (js ''/open example.com'')))
          = Some (Error (js ''Blocked''))"
    using site_args by (simp add: mock_runtime_def)
  have sum: "startsWith (trim (js ''/calc 2 +'')) (js ''/'')"
    and sum_name: "command_name ?broken (js ''/calc 2 +'') = js ''calc''
                   \<or> command_name ?broken (js ''/calc 2 +'') = js ''calculate''"
    and sum_expr: "join_space (command_args (js ''/calc 2 +'')) = js ''2 +''"
    and sum_args: "command_args (js ''/calc 2 +'') \<noteq> []"
    by (simp_all add: router_defs string_defs)
  have sum_checked: "safety_check (js ''2 +'')"
    by (simp add: safety_check_def allowed_char_def string_defs)
  have sum_fails: "command_args (js ''/calc 2 +'') \<noteq> []
      \<and> safety_check (join_space (command_args (js ''/calc 2 +'')))
      \<and> ((\<exists>e. run_function ?broken (function_source (join_space (command_args (js ''/calc 2 +''))))
                 = Inl e)
         \<or> run_function ?broken (function_source (join_space (command_args (js ''/calc 2 +''))))
             = Inr NotNumber
         \<or> (\<exists>shown. run_function ?broken
                         (function_source (join_space (command_args (js ''/calc 2 +''))))
                       = Inr (Number False shown)))"
    using sum_args sum_checked unfolding sum_expr by (simp add: mock_runtime_def)
  note d = command_errors_stay_local [of ?quiet "js ''/Dance now''" empty_context,
      THEN conjunct2, THEN conjunct1, THEN mp, OF dance]
  note b = command_errors_stay_local [of ?quiet "js ''/open''" empty_context,
      THEN conjunct2, THEN conjunct1, THEN mp, OF bare]
  note c = command_errors_stay_local [of ?quiet "js ''/clipboard''" empty_context,
      THEN conjunct2, THEN conjunct1, THEN mp, OF clip]
  note s = command_errors_stay_local [of ?broken "js ''/open example.com''" empty_context,
      THEN conjunct2, THEN conjunct1, THEN mp, OF site]
  note m = command_errors_stay_local [of ?broken "js ''/calc 2 +''" empty_context,
      THEN conjunct2, THEN conjunct1, THEN mp, OF sum]
  have r1: "runCommandOrChat ?quiet (js ''/Dance now'') empty_context
     = ([], Inr ([0x274C] @ js '' Unknown command: /dance. Type /help for available commands.''))"
    using d [THEN conjunct1, THEN mp, OF dance_unknown] unfolding dance_name
    by (simp add: js_def)
  have r2: "runCommandOrChat ?quiet (js ''/open'') empty_context
     = ([], Inr ([0x274C] @ js '' Please provide a URL. Example: /open https://google.com''))"
    by (rule b [THEN conjunct2, THEN conjunct1, THEN mp, OF bare_name,
                THEN conjunct1, THEN mp, OF bare_args])
  have r3: "runCommandOrChat ?quiet (js ''/clipboard'') empty_context
     = ([], Inr ([0x274C] @ js '' Clipboard access not available. Try copying text and asking me to summarize it directly.''))"
    by (rule c [THEN conjunct2, THEN conjunct2, THEN conjunct2, THEN mp, OF clip_name,
                THEN conjunct2, THEN conjunct1, THEN mp, OF clip_state])
  have r4: "runCommandOrChat ?broken (js ''/open example.com'') empty_context
     = ([WindowOpen (js ''https://example.com'')],
        Inr ([0x274C] @ js '' Failed to open URL: Blocked''))"
    using s [THEN conjunct2, THEN conjunct1, THEN mp, OF site_name,
             THEN conjunct2, THEN spec, THEN mp, OF site_blocked]
    unfolding site_url by (simp add: js_def)
  have r5: "runCommandOrChat ?broken (js ''/calc 2 +'') empty_context
     = ([Evaluate ([dquote] @ js ''use strict'' @ [dquote] @ js ''; return (2 +)'')],
        Inr ([0x274C] @ js '' Invalid math expression: '' @ [dquote] @ js ''2 +'' @ [dquote]))"
    using m [THEN conjunct2, THEN conjunct2, THEN conjunct1, THEN mp, OF sum_name,
             THEN conjunct2, THEN conjunct2, THEN mp, OF sum_fails]
    unfolding sum_expr by (simp add: function_source_def js_def)
  show ?thesis
    by (rule conjI [OF r1 conjI [OF r2 conjI [OF r3 conjI [OF r4 r5]]]])
qed

section \<open>What a turn throws\<close>

text \<open>
  C2, as the code has it. \<open>runCommandOrChat\<close> does not return a text in every case: the
  two calls of the Model Client stand outside every \<open>try\<close>, so when the call it makes
  fails, that error is thrown to the caller (who catches it, in \<open>handleSubmit\<close>). It
  throws in no other case. A thrown error is always the error of a Model Client call of
  this turn, and a failed Model Client call of this turn is always thrown: on an ordinary
  chat turn, and on a \<open>/clipboard\<close> turn whose clipboard holds text. If that call
  succeeds, or none is made, a text is returned. Every error of a command is returned as a
  text behind the failure marker, and each failure of a command or of a capability it uses
  (the window, the engine, the clipboard) is such an error.
\<close>

theorem only_model_failures_are_thrown:
  "(\<forall>e. snd (runCommandOrChat rt input ctx) = Inl e \<longrightarrow>
      (\<exists>sys msgs. ModelCall sys msgs \<in> set (fst (runCommandOrChat rt input ctx))
                  \<and> llm_chat rt sys msgs = Inl e))
   \<and> (\<forall>sys msgs e. ModelCall sys msgs \<in> set (fst (runCommandOrChat rt input ctx))
        \<and> llm_chat rt sys msgs = Inl e
      \<longrightarrow> snd (runCommandOrChat rt input ctx) = Inl e)
   \<and> ((\<forall>sys msgs. ModelCall sys msgs \<in> set (fst (runCommandOrChat rt input ctx))
          \<longrightarrow> (\<exists>t. llm_chat rt sys msgs = Inr t))
        \<longrightarrow> (\<exists>t. snd (runCommandOrChat rt input ctx) = Inr t))
   \<and> (\<forall>e. \<not> startsWith (trim input) (js ''/'')
        \<and> llm_chat rt (system ctx) (history ctx @ [\<lparr>role = User, content = input\<rparr>]) = Inl e
      \<longrightarrow> snd (runCommandOrChat rt input ctx) = Inl e)
   \<and> (\<forall>T e. startsWith (trim input) (js ''/'') \<and> command_name rt input = js ''clipboard''
        \<and> clipboard rt = ClipboardReadText (Inr T) \<and> \<not> list_all isWhiteSpace T
        \<and> llm_chat rt (system ctx)
              [\<lparr>role = User,
                 content = js ''Please provide a concise summary of this clipboard content:''
                           @ [newline, newline] @ T\<rparr>] = Inl e
      \<longrightarrow> snd (runCommandOrChat rt input ctx) = Inl e)
   \<and> (\<forall>tr result e. processInput rt input = (tr, result) \<and> isCommand result
          \<and> error result = Some e
        \<longrightarrow> snd (runCommandOrChat rt input ctx) = Inr ([0x274C] @ js '' '' @ e))
   \<and> (startsWith (trim input) (js ''/'') \<longrightarrow>
    (command_name rt input
        \<notin> {js ''help'', js ''open'', js ''calc'', js ''calculate'', js ''clipboard''}
      \<longrightarrow> runCommandOrChat rt input ctx =
        ([], Inr ([0x274C] @ js '' Unknown command: /'' @ command_name rt input
          @ js ''. Type /help for available commands.'')))
    \<and> (command_name rt input = js ''open'' \<longrightarrow>
      (command_args input = [] \<longrightarrow> runCommandOrChat rt input ctx =
        ([], Inr ([0x274C] @ js '' Please provide a URL. Example: /open https://google.com'')))
      \<and> (\<forall>e. command_args input \<noteq> []
        \<and> window_open rt (normalize_url (command_args input)) = Some e
      \<longrightarrow> runCommandOrChat rt input ctx =
        ([WindowOpen (normalize_url (command_args input))], Inr ([0x274C] @ js '' Failed to open URL: '' @ message e))))
    \<and> (command_name rt input = js ''calc'' \<or> command_name rt input = js ''calculate'' \<longrightarrow>
      (command_args input = [] \<longrightarrow> runCommandOrChat rt input ctx =
        ([], Inr ([0x274C] @ js '' Please provide a math expression. Example: /calc 2 + 2'')))
      \<and> (command_args input \<noteq> [] \<and> \<not> safety_check (join_space (command_args input))
      \<longrightarrow> runCommandOrChat rt input ctx =
        ([], Inr ([0x274C] @ js '' Invalid math expression: '' @ [dquote]
          @ join_space (command_args input) @ [dquote])))
      \<and> (command_args input \<noteq> [] \<and> safety_check (join_space (command_args input))
        \<and> ((\<exists>e. run_function rt (function_source (join_space (command_args input))) = Inl e)
           \<or> run_function rt (function_source (join_space (command_args input))) = Inr NotNumber
           \<or> (\<exists>shown. run_function rt (function_source (join_space (command_args input))) = Inr (Number False shown)))
      \<longrightarrow> runCommandOrChat rt input ctx =
        ([Evaluate (function_source (join_space (command_args input)))], Inr ([0x274C] @ js '' Invalid math expression: '' @ [dquote]
          @ join_space (command_args input) @ [dquote]))))
    \<and> (command_name rt input = js ''clipboard'' \<longrightarrow>
      ((\<exists>e. clipboard rt = ClipboardTestThrows e)
      \<longrightarrow> runCommandOrChat rt input ctx =
        ([], Inr ([0x274C] @ js '' Clipboard access denied. Try copying text and asking me to summarize it directly.'')))
      \<and> (clipboard rt = ClipboardUnavailable
      \<longrightarrow> runCommandOrChat rt input ctx =
        ([], Inr ([0x274C] @ js '' Clipboard access not available. Try copying text and asking me to summarize it directly.'')))
      \<and> ((\<exists>e. clipboard rt = ClipboardReadText (Inl e))
      \<longrightarrow> runCommandOrChat rt input ctx =
        ([ClipboardRead], Inr ([0x274C] @ js '' Clipboard access denied. Try copying text and asking me to summarize it directly.'')))
      \<and> (\<forall>T. clipboard rt = ClipboardReadText (Inr T) \<and> list_all isWhiteSpace T
      \<longrightarrow> runCommandOrChat rt input ctx =
        ([ClipboardRead], Inr ([0x274C] @ js '' Clipboard is empty or contains no text'')))))"
  (is "?T1 \<and> ?T2 \<and> ?T3 \<and> ?T4 \<and> ?T5 \<and> ?T6 \<and> ?B")
proof -
  consider
      (chat) "runCommandOrChat rt input ctx =
        ([ModelCall (system ctx) (history ctx @ [user_message input])],
         llm_chat rt (system ctx) (history ctx @ [user_message input]))"
    | (local) t where "runCommandOrChat rt input ctx = (fst (processInput rt input), Inr t)"
    | (clip) T where "runCommandOrChat rt input ctx =
          ([ClipboardRead, ModelCall (system ctx) [user_message (summary_prompt T)]],
           case llm_chat rt (system ctx) [user_message (summary_prompt T)] of
             Inl e \<Rightarrow> Inl e
           | Inr summary \<Rightarrow> Inr (acknowledgement @ [newline, newline] @ summary))"
    using run_shapes [of rt input ctx] by blast
  note shapes = this
  have quiet: "ModelCall sys msgs \<notin> set (fst (processInput rt input))" for sys msgs
  proof
    assume "ModelCall sys msgs \<in> set (fst (processInput rt input))"
    then have "list_ex is_model_call (fst (processInput rt input))"
      unfolding list_ex_iff by - (rule bexI [of _ "ModelCall sys msgs"], simp_all)
    then show False
      by (simp add: processInput_no_model_call)
  qed
  from shapes have thrown: ?T1
  proof cases
    case chat
    then show ?thesis by auto
  next
    case local
    then show ?thesis by simp
  next
    case clip
    then show ?thesis
      by (cases "llm_chat rt (system ctx) [user_message (summary_prompt T)]") auto
  qed
  from shapes have passed_on: ?T2
  proof cases
    case chat
    then show ?thesis by auto
  next
    case local
    then show ?thesis by (simp add: quiet)
  next
    case clip
    then show ?thesis by auto
  qed
  have returned: ?T3
  proof
    assume all: "\<forall>sys msgs. ModelCall sys msgs \<in> set (fst (runCommandOrChat rt input ctx))
          \<longrightarrow> (\<exists>t. llm_chat rt sys msgs = Inr t)"
    show "\<exists>t. snd (runCommandOrChat rt input ctx) = Inr t"
    proof (cases "snd (runCommandOrChat rt input ctx)")
      case (Inl e)
      with thrown obtain sys msgs where
        "ModelCall sys msgs \<in> set (fst (runCommandOrChat rt input ctx))"
        "llm_chat rt sys msgs = Inl e"
        by blast
      with all show ?thesis by fastforce
    next
      case (Inr t)
      then show ?thesis by blast
    qed
  qed
  have chat_turn: ?T4
    by (simp add: runCommandOrChat_def processInput_def not_a_command_def user_message_def)
  have summary_turn: ?T5
  proof (intro allI impI)
    fix T e
    assume a: "startsWith (trim input) (js ''/'') \<and> command_name rt input = js ''clipboard''
        \<and> clipboard rt = ClipboardReadText (Inr T) \<and> \<not> list_all isWhiteSpace T
        \<and> llm_chat rt (system ctx)
              [\<lparr>role = User,
                 content = js ''Please provide a concise summary of this clipboard content:''
                           @ [newline, newline] @ T\<rparr>] = Inl e"
    then have filled: "T \<noteq> []" "trim T \<noteq> []"
      by (auto simp: trim_empty_iff)
    with a have "summarizeClipboard rt =
        ([ClipboardRead],
         \<lparr>isCommand = True, response = Some acknowledgement, error = None,
          shouldContinueToLLM = Some True, clipboardContent = Some T\<rparr>)"
      by (simp add: summarizeClipboard_def)
    with a have "processInput rt input =
        ([ClipboardRead],
         \<lparr>isCommand = True, response = Some acknowledgement, error = None,
          shouldContinueToLLM = Some True, clipboardContent = Some T\<rparr>)"
      by (simp add: processInput_clipboard)
    with filled have "runCommandOrChat rt input ctx =
        ([ClipboardRead, ModelCall (system ctx) [user_message (summary_prompt T)]],
         case llm_chat rt (system ctx) [user_message (summary_prompt T)] of
           Inl e \<Rightarrow> Inl e
         | Inr summary \<Rightarrow> Inr (acknowledgement @ [newline, newline] @ summary))"
      by (simp add: run_clipboard_text)
    with a show "snd (runCommandOrChat rt input ctx) = Inl e"
      by (simp add: user_message_def summary_prompt_def)
  qed
  have marked: ?T6
  proof (intro allI impI)
    fix tr result e
    assume "processInput rt input = (tr, result) \<and> isCommand result \<and> error result = Some e"
    then have "runCommandOrChat rt input ctx = (tr, Inr (failure_marker @ e))"
      by (simp add: run_error_branch)
    then show "snd (runCommandOrChat rt input ctx) = Inr ([0x274C] @ js '' '' @ e)"
      by (simp add: failure_marker_def)
  qed
  have failures: ?B
    by (rule command_failures)
  show ?thesis
    by (rule conjI [OF thrown conjI [OF passed_on conjI [OF returned conjI [OF chat_turn
          conjI [OF summary_turn conjI [OF marked failures]]]]]])
qed

theorem only_model_failures_are_thrown_witness:
  "snd (runCommandOrChat
          (mock_runtime (Inl (Error (js ''Failed to fetch''))) None ClipboardUnavailable
             (Inr NotNumber))
          (js ''hello'') empty_context)
     = Inl (Error (js ''Failed to fetch''))
   \<and> snd (runCommandOrChat
          (mock_runtime (Inl (Error (js ''Failed to fetch''))) None
             (ClipboardReadText (Inr (js ''meeting notes''))) (Inr NotNumber))
          (js ''/clipboard'') empty_context)
     = Inl (Error (js ''Failed to fetch''))
   \<and> (\<exists>t. snd (runCommandOrChat
              (mock_runtime (Inl (Error (js ''Failed to fetch''))) None ClipboardUnavailable
                 (Inr NotNumber))
              (js ''/help'') empty_context) = Inr t)
   \<and> runCommandOrChat
          (mock_runtime (Inl (Error (js ''Failed to fetch''))) None
             (ClipboardReadText (Inl (Error (js ''NotAllowedError'')))) (Inr NotNumber))
          (js ''/clipboard'') empty_context
     = ([ClipboardRead],
        Inr ([0x274C] @ js '' Clipboard access denied. Try copying text and asking me to summarize it directly.''))
   \<and> runCommandOrChat
          (mock_runtime (Inl (Error (js ''Failed to fetch''))) None ClipboardUnavailable
             (Inr NotNumber))
          (js ''/open'') empty_context
     = ([], Inr ([0x274C] @ js '' Please provide a URL. Example: /open https://google.com''))"
proof -
  let ?down = "mock_runtime (Inl (Error (js ''Failed to fetch''))) None ClipboardUnavailable
                 (Inr NotNumber)"
  let ?notes = "mock_runtime (Inl (Error (js ''Failed to fetch''))) None
                  (ClipboardReadText (Inr (js ''meeting notes''))) (Inr NotNumber)"
  let ?denied = "mock_runtime (Inl (Error (js ''Failed to fetch''))) None
                   (ClipboardReadText (Inl (Error (js ''NotAllowedError'')))) (Inr NotNumber)"
  have hello: "\<not> startsWith (trim (js ''hello'')) (js ''/'')
      \<and> llm_chat ?down (system empty_context)
            (history empty_context @ [\<lparr>role = User, content = js ''hello''\<rparr>])
          = Inl (Error (js ''Failed to fetch''))"
    by (simp add: string_defs mock_runtime_def)
  have copied: "startsWith (trim (js ''/clipboard'')) (js ''/'')
      \<and> command_name ?notes (js ''/clipboard'') = js ''clipboard''
      \<and> clipboard ?notes = ClipboardReadText (Inr (js ''meeting notes''))
      \<and> \<not> list_all isWhiteSpace (js ''meeting notes'')
      \<and> llm_chat ?notes (system empty_context)
            [\<lparr>role = User,
               content = js ''Please provide a concise summary of this clipboard content:''
                         @ [newline, newline] @ js ''meeting notes''\<rparr>]
          = Inl (Error (js ''Failed to fetch''))"
    by (simp add: router_defs string_defs)
  have quiet: "\<forall>sys msgs.
      ModelCall sys msgs \<in> set (fst (runCommandOrChat ?down (js ''/help'') empty_context))
      \<longrightarrow> (\<exists>t. llm_chat ?down sys msgs = Inr t)"
    by (simp add: router_defs string_defs)
  have clip: "startsWith (trim (js ''/clipboard'')) (js ''/'')"
    and clip_name: "command_name ?denied (js ''/clipboard'') = js ''clipboard''"
    and clip_state: "\<exists>e. clipboard ?denied = ClipboardReadText (Inl e)"
    by (simp_all add: router_defs string_defs)
  have bare: "startsWith (trim (js ''/open'')) (js ''/'')"
    and bare_name: "command_name ?down (js ''/open'') = js ''open''"
    and bare_args: "command_args (js ''/open'') = []"
    by (simp_all add: router_defs string_defs)
  note t = only_model_failures_are_thrown
  have r1: "snd (runCommandOrChat ?down (js ''hello'') empty_context)
      = Inl (Error (js ''Failed to fetch''))"
    by (rule t [of ?down "js ''hello''" empty_context,
                THEN conjunct2, THEN conjunct2, THEN conjunct2, THEN conjunct1,
                THEN spec, THEN mp, OF hello])
  have r2: "snd (runCommandOrChat ?notes (js ''/clipboard'') empty_context)
      = Inl (Error (js ''Failed to fetch''))"
    by (rule t [of ?notes "js ''/clipboard''" empty_context,
                THEN conjunct2, THEN conjunct2, THEN conjunct2, THEN conjunct2, THEN conjunct1,
                THEN spec, THEN spec, THEN mp, OF copied])
  have r3: "\<exists>t. snd (runCommandOrChat ?down (js ''/help'') empty_context) = Inr t"
    by (rule t [of ?down "js ''/help''" empty_context,
                THEN conjunct2, THEN conjunct2, THEN conjunct1, THEN mp, OF quiet])
  have r4: "runCommandOrChat ?denied (js ''/clipboard'') empty_context
     = ([ClipboardRead],
        Inr ([0x274C] @ js '' Clipboard access denied. Try copying text and asking me to summarize it directly.''))"
    by (rule t [of ?denied "js ''/clipboard''" empty_context,
                THEN conjunct2, THEN conjunct2, THEN conjunct2, THEN conjunct2,
                THEN conjunct2, THEN conjunct2, THEN mp, OF clip,
                THEN conjunct2, THEN conjunct2, THEN conjunct2, THEN mp, OF clip_name,
                THEN conjunct2, THEN conjunct2, THEN conjunct1, THEN mp, OF clip_state])
  have r5: "runCommandOrChat ?down (js ''/open'') empty_context
     = ([], Inr ([0x274C] @ js '' Please provide a URL. Example: /open https://google.com''))"
    by (rule t [of ?down "js ''/open''" empty_context,
                THEN conjunct2, THEN conjunct2, THEN conjunct2, THEN conjunct2,
                THEN conjunct2, THEN conjunct2, THEN mp, OF bare,
                THEN conjunct2, THEN conjunct1, THEN mp, OF bare_name,
                THEN conjunct1, THEN mp, OF bare_args])
  show ?thesis
    by (rule conjI [OF r1 conjI [OF r2 conjI [OF r3 conjI [OF r4 r5]]]])
qed

lemma chat_unconfigured:
  "chat unconfigured_environment sys msgs opts =
     Inl (Error (js ''Missing VITE_OPENAI_API_KEY. Add it to your .env file (see .env.example).''))"
  by (simp add: chat_def unconfigured_environment_def)

text \<open>
  The claim C2 as stated fails on an ordinary chat turn when no API key is configured:
  \<open>chat\<close> throws at its first line and \<open>runCommandOrChat\<close> passes the exception on.
\<close>

theorem model_failure_is_thrown_counterexample:
  "runCommandOrChat
     (with_model_client unconfigured_environment
        (mock_runtime (Inr []) None ClipboardUnavailable (Inr NotNumber)))
     (js ''hello'') empty_context
   = ([ModelCall (js ''You are Clippy AI, a helpful desktop assistant.'')
         [\<lparr>role = User, content = js ''hello''\<rparr>]],
      Inl (Error (js ''Missing VITE_OPENAI_API_KEY. Add it to your .env file (see .env.example).'')))"
proof -
  have c: "\<not> startsWith (trim (js ''hello'')) (js ''/'')"
    by (simp add: string_defs)
  show ?thesis
    by (simp add: runCommandOrChat_def processInput_def c not_a_command_def user_message_def
        with_model_client_def chat_unconfigured mock_runtime_def empty_context_def)
qed

section \<open>The arithmetic of /calc\<close>

text \<open>
  The evaluation of the specification's words agrees with the meaning of every expression
  tree, written with parentheses exactly where precedence and the association to the left
  ask for them. Reading the tokens of a tree leaves its value on the stack, provided that
  the operator waiting on top binds less than the tree's level and that what follows is
  the end, a closing parenthesis or an operator of that level or less.
\<close>

lemma unwind_guarded:
  assumes "\<And>g hs'. hs = Pending g # hs' \<Longrightarrow> precedence g < p"
  shows "unwind p hs vs = Some (hs, vs)"
proof (cases hs)
  case Nil
  then show ?thesis by simp
next
  case (Cons h hs')
  with assms show ?thesis
    by (cases h) auto
qed

lemma shunt_absorb:
  assumes "ts = [] \<or> (\<exists>ts'. ts = RParen # ts')
           \<or> (\<exists>g ts'. ts = Operator g # ts' \<and> precedence g \<le> p)"
    and "p \<le> precedence f"
  shows "shunt False (Pending f # hs) (y # x # vs) ts = shunt False hs (combine f x y # vs) ts"
  using assms by (elim disjE exE conjE) simp_all

lemma shunt_written:
  assumes "\<And>g hs'. hs = Pending g # hs' \<Longrightarrow> precedence g < p"
    and "ts = [] \<or> (\<exists>ts'. ts = RParen # ts')
         \<or> (\<exists>g ts'. ts = Operator g # ts' \<and> precedence g \<le> p)"
  shows "shunt True hs vs (written p e @ ts) = shunt False hs (meaning e # vs) ts"
  using assms
proof (induction e arbitrary: p hs vs ts)
  case (Const q)
  then show ?case by simp
next
  case (Binary f l r)
  have inner: "shunt True hs' vs
      (written (precedence f) l @ [Operator f] @ written (Suc (precedence f)) r @ ts')
      = shunt False hs' (combine f (meaning l) (meaning r) # vs) ts'"
    if g: "\<And>g hs''. hs' = Pending g # hs'' \<Longrightarrow> precedence g < precedence f"
      and t: "ts' = [] \<or> (\<exists>ts''. ts' = RParen # ts'')
         \<or> (\<exists>g ts''. ts' = Operator g # ts'' \<and> precedence g \<le> precedence f)"
    for hs' ts'
  proof -
    have "shunt True hs' vs
        (written (precedence f) l @ (Operator f # written (Suc (precedence f)) r @ ts'))
        = shunt False hs' (meaning l # vs) (Operator f # written (Suc (precedence f)) r @ ts')"
      by (rule Binary.IH(1)) (use g in auto)
    also have "\<dots> = shunt True (Pending f # hs') (meaning l # vs)
        (written (Suc (precedence f)) r @ ts')"
      using unwind_guarded [of hs' "precedence f" "meaning l # vs"] g by simp
    also have "\<dots> = shunt False (Pending f # hs') (meaning r # meaning l # vs) ts'"
      by (rule Binary.IH(2)) (use t in auto)
    also have "\<dots> = shunt False hs' (combine f (meaning l) (meaning r) # vs) ts'"
      by (rule shunt_absorb [OF t]) simp
    finally show ?thesis by simp
  qed
  show ?case
  proof (cases "precedence f < p")
    case True
    have "shunt True hs vs (written p (Binary f l r) @ ts)
        = shunt True (Bracket # hs) vs
            (written (precedence f) l @ [Operator f] @ written (Suc (precedence f)) r
             @ (RParen # ts))"
      using True by simp
    also have "\<dots> = shunt False (Bracket # hs) (combine f (meaning l) (meaning r) # vs)
        (RParen # ts)"
      by (rule inner) auto
    also have "\<dots> = shunt False hs (meaning (Binary f l r) # vs) ts"
      by simp
    finally show ?thesis .
  next
    case False
    have "shunt True hs vs (written p (Binary f l r) @ ts)
        = shunt True hs vs
            (written (precedence f) l @ [Operator f] @ written (Suc (precedence f)) r @ ts)"
      using False by simp
    also have "\<dots> = shunt False hs (combine f (meaning l) (meaning r) # vs) ts"
    proof (rule inner)
      fix g hs''
      assume "hs = Pending g # hs''"
      then have "precedence g < p" by (rule Binary.prems(1))
      with False show "precedence g < precedence f" by simp
    next
      from Binary.prems(2) False
      show "ts = [] \<or> (\<exists>ts''. ts = RParen # ts'')
         \<or> (\<exists>g ts''. ts = Operator g # ts'' \<and> precedence g \<le> precedence f)"
        by auto
    qed
    finally show ?thesis by simp
  qed
qed

lemma shunt_meaning: "shunt True [] [] (written 0 e) = Some (meaning e)"
  using shunt_written [of "[]" 0 "[]" "[]" e] by simp

lemma after_prefix_append: "after_prefix p (p @ s) = Some s"
  by (induction p) simp_all

lemma function_body_source: "function_body (function_source expression) = Some expression"
  by (simp add: function_body_def function_source_def after_prefix_append js_def)

lemma fraction_numeral:
  "fraction (numeral k) r d =
     (if r = 0 then []
      else (0x30 + of_nat (10 * r div d)) # fraction (pred_numeral k) (10 * r mod d) d)"
  by (simp add: numeral_eq_Suc)

text \<open>A finite number ends the turn with the expression and the number.\<close>

lemma turn_calc_result:
  assumes "startsWith (trim input) (js ''/'')"
    and "command_name rt input = js ''calc'' \<or> command_name rt input = js ''calculate''"
    and "command_args input \<noteq> []" and "safety_check (join_space (command_args input))"
    and "run_function rt (function_source (join_space (command_args input))) = Inr (Number True shown)"
  shows "runCommandOrChat rt input ctx =
      ([Evaluate (function_source (join_space (command_args input)))],
       Inr ([0xD83E, 0xDDEE] @ js '' **'' @ join_space (command_args input)
            @ js ''** = **'' @ shown @ js ''**''))"
proof -
  from assms(3-5) have "calculate rt (command_args input) =
      ([Evaluate (function_source (join_space (command_args input)))],
       command_response ([0xD83E, 0xDDEE] @ js '' **'' @ join_space (command_args input) @ js ''** = **''
                         @ shown @ js ''**''))"
    by (rule calculate_formats_result)
  with assms(1,2) have "processInput rt input =
      ([Evaluate (function_source (join_space (command_args input)))],
       command_response ([0xD83E, 0xDDEE] @ js '' **'' @ join_space (command_args input) @ js ''** = **''
                         @ shown @ js ''**''))"
    by (simp add: processInput_calc)
  then show ?thesis
    by (rule run_response) simp
qed

text \<open>
  C5. For \<open>/calc\<close> and \<open>/calculate\<close>: without arguments the turn returns the
  missing-expression error. With an expression that passes the safety check, whatever the
  engine is, a finite number is returned as \<open>**expression** = **number**\<close> behind the
  calculator sign, and a value that is not a number or not finite is rejected with the
  invalid-expression error. With the arithmetic of the specification for the engine, the
  number is the expression's value under the standard precedence and association to the
  left: the evaluation gives every expression tree its meaning, so \<open>a + b * c\<close> is
  \<open>a + (b * c)\<close> and \<open>a - b - c\<close> is \<open>(a - b) - c\<close>, parentheses overrule both, a
  division by zero has no finite value and is rejected, and so is a text that is no
  expression. \<open>/calc 2 + 2 * 3\<close> returns \<open>**2 + 2 * 3** = **8**\<close>.
\<close>

theorem calc_evaluates_arithmetic:
  "(startsWith (trim input) (js ''/'')
      \<and> (command_name rt input = js ''calc'' \<or> command_name rt input = js ''calculate'')
    \<longrightarrow>
      (command_args input = [] \<longrightarrow>
        runCommandOrChat rt input ctx =
          ([], Inr ([0x274C] @ js '' Please provide a math expression. Example: /calc 2 + 2'')))
      \<and> (\<forall>shown. command_args input \<noteq> [] \<and> safety_check (join_space (command_args input))
          \<and> run_function rt (function_source (join_space (command_args input))) = Inr (Number True shown)
        \<longrightarrow> runCommandOrChat rt input ctx =
            ([Evaluate (function_source (join_space (command_args input)))],
             Inr ([0xD83E, 0xDDEE] @ js '' **'' @ join_space (command_args input)
                  @ js ''** = **'' @ shown @ js ''**'')))
      \<and> (command_args input \<noteq> [] \<and> safety_check (join_space (command_args input))
          \<and> (run_function rt (function_source (join_space (command_args input))) = Inr NotNumber
               \<or> (\<exists>shown. run_function rt (function_source (join_space (command_args input))) = Inr (Number False shown)))
        \<longrightarrow> runCommandOrChat rt input ctx =
            ([Evaluate (function_source (join_space (command_args input)))],
             Inr ([0x274C] @ js '' Invalid math expression: '' @ [dquote]
                  @ join_space (command_args input) @ [dquote])))
      \<and> (run_function rt = spec_run_function \<and> command_args input \<noteq> [] \<and> safety_check (join_space (command_args input))
        \<longrightarrow>
          (\<forall>q. spec_evaluate (join_space (command_args input)) = Some (Some q)
            \<longrightarrow> runCommandOrChat rt input ctx =
            ([Evaluate (function_source (join_space (command_args input)))],
             Inr ([0xD83E, 0xDDEE] @ js '' **'' @ join_space (command_args input)
                  @ js ''** = **'' @ render q @ js ''**'')))
          \<and> (spec_evaluate (join_space (command_args input)) = Some None
                \<or> spec_evaluate (join_space (command_args input)) = None
            \<longrightarrow> runCommandOrChat rt input ctx =
            ([Evaluate (function_source (join_space (command_args input)))],
             Inr ([0x274C] @ js '' Invalid math expression: '' @ [dquote]
                  @ join_space (command_args input) @ [dquote])))))
   \<and> (\<forall>e. shunt True [] [] (written 0 e) = Some (meaning e))
   \<and> (\<forall>a b c.
      shunt True [] [] [Decimal a, Operator Add, Decimal b, Operator Multiply, Decimal c]
        = Some (Some (a + b * c))
      \<and> shunt True [] [] [Decimal a, Operator Multiply, Decimal b, Operator Add, Decimal c]
        = Some (Some (a * b + c))
      \<and> shunt True [] [] [Decimal a, Operator Subtract, Decimal b, Operator Subtract, Decimal c]
        = Some (Some (a - b - c))
      \<and> shunt True [] []
          [Decimal a, Operator Subtract, LParen, Decimal b, Operator Subtract, Decimal c, RParen]
        = Some (Some (a - (b - c)))
      \<and> shunt True [] []
          [LParen, Decimal a, Operator Add, Decimal b, RParen, Operator Multiply, Decimal c]
        = Some (Some ((a + b) * c)))
   \<and> tokens Idle (js ''2 + 2 * 3'')
      = Some [Decimal 2, Operator Add, Decimal 2, Operator Multiply, Decimal 3]
   \<and> spec_evaluate (js ''2 + 2 * 3'') = Some (Some 8)
   \<and> runCommandOrChat
       (with_arithmetic
          (mock_runtime (Inr (js ''Hi!'')) None ClipboardUnavailable (Inr NotNumber)))
       (js ''/calc 2 + 2 * 3'') empty_context
      = ([Evaluate ([dquote] @ js ''use strict'' @ [dquote] @ js ''; return (2 + 2 * 3)'')],
         Inr ([0xD83E, 0xDDEE] @ js '' **2 + 2 * 3** = **8**''))"
  (is "?T \<and> ?M \<and> ?P \<and> ?X1 \<and> ?X2 \<and> ?X3")
proof -
  have turn: ?T
  proof
    assume "startsWith (trim input) (js ''/'')
      \<and> (command_name rt input = js ''calc'' \<or> command_name rt input = js ''calculate'')"
    then have s: "startsWith (trim input) (js ''/'')"
      and c: "command_name rt input = js ''calc'' \<or> command_name rt input = js ''calculate''"
      by simp_all
    have a: "command_args input = [] \<longrightarrow>
        runCommandOrChat rt input ctx =
          ([], Inr ([0x274C] @ js '' Please provide a math expression. Example: /calc 2 + 2''))"
      using turn_calc_empty [OF s c] by blast
    have b: "\<forall>shown. command_args input \<noteq> [] \<and> safety_check (join_space (command_args input))
          \<and> run_function rt (function_source (join_space (command_args input))) = Inr (Number True shown)
        \<longrightarrow> runCommandOrChat rt input ctx =
            ([Evaluate (function_source (join_space (command_args input)))],
             Inr ([0xD83E, 0xDDEE] @ js '' **'' @ join_space (command_args input)
                  @ js ''** = **'' @ shown @ js ''**''))"
      using turn_calc_result [OF s c] by blast
    have f: "command_args input \<noteq> [] \<and> safety_check (join_space (command_args input))
          \<and> (run_function rt (function_source (join_space (command_args input))) = Inr NotNumber
               \<or> (\<exists>shown. run_function rt (function_source (join_space (command_args input))) = Inr (Number False shown)))
        \<longrightarrow> runCommandOrChat rt input ctx =
            ([Evaluate (function_source (join_space (command_args input)))],
             Inr ([0x274C] @ js '' Invalid math expression: '' @ [dquote]
                  @ join_space (command_args input) @ [dquote]))"
      using turn_calc_failed [OF s c] by blast
    have d: "run_function rt = spec_run_function \<and> command_args input \<noteq> [] \<and> safety_check (join_space (command_args input))
        \<longrightarrow>
          (\<forall>q. spec_evaluate (join_space (command_args input)) = Some (Some q)
            \<longrightarrow> runCommandOrChat rt input ctx =
            ([Evaluate (function_source (join_space (command_args input)))],
             Inr ([0xD83E, 0xDDEE] @ js '' **'' @ join_space (command_args input)
                  @ js ''** = **'' @ render q @ js ''**'')))
          \<and> (spec_evaluate (join_space (command_args input)) = Some None
                \<or> spec_evaluate (join_space (command_args input)) = None
            \<longrightarrow> runCommandOrChat rt input ctx =
            ([Evaluate (function_source (join_space (command_args input)))],
             Inr ([0x274C] @ js '' Invalid math expression: '' @ [dquote]
                  @ join_space (command_args input) @ [dquote])))"
    proof
      assume e: "run_function rt = spec_run_function \<and> command_args input \<noteq> [] \<and> safety_check (join_space (command_args input))"
      have ok: "\<forall>q. spec_evaluate (join_space (command_args input)) = Some (Some q)
            \<longrightarrow> runCommandOrChat rt input ctx =
            ([Evaluate (function_source (join_space (command_args input)))],
             Inr ([0xD83E, 0xDDEE] @ js '' **'' @ join_space (command_args input)
                  @ js ''** = **'' @ render q @ js ''**''))"
      proof (intro allI impI)
        fix q
        assume "spec_evaluate (join_space (command_args input)) = Some (Some q)"
        with e have "run_function rt (function_source (join_space (command_args input))) = Inr (Number True (render q))"
          by (simp add: spec_run_function_def function_body_source)
        with e show "runCommandOrChat rt input ctx =
            ([Evaluate (function_source (join_space (command_args input)))],
             Inr ([0xD83E, 0xDDEE] @ js '' **'' @ join_space (command_args input)
                  @ js ''** = **'' @ render q @ js ''**''))"
          by (intro turn_calc_result [OF s c]) simp_all
      qed
      have bad: "spec_evaluate (join_space (command_args input)) = Some None
                \<or> spec_evaluate (join_space (command_args input)) = None
            \<longrightarrow> runCommandOrChat rt input ctx =
            ([Evaluate (function_source (join_space (command_args input)))],
             Inr ([0x274C] @ js '' Invalid math expression: '' @ [dquote]
                  @ join_space (command_args input) @ [dquote]))"
      proof
        assume "spec_evaluate (join_space (command_args input)) = Some None
                \<or> spec_evaluate (join_space (command_args input)) = None"
        with e have "(\<exists>e. run_function rt (function_source (join_space (command_args input))) = Inl e)
           \<or> run_function rt (function_source (join_space (command_args input))) = Inr NotNumber
           \<or> (\<exists>shown. run_function rt (function_source (join_space (command_args input))) = Inr (Number False shown))"
          by (auto simp: spec_run_function_def function_body_source)
        with e show "runCommandOrChat rt input ctx =
            ([Evaluate (function_source (join_space (command_args input)))],
             Inr ([0x274C] @ js '' Invalid math expression: '' @ [dquote]
                  @ join_space (command_args input) @ [dquote]))"
          by (intro turn_calc_failed [OF s c]) simp
      qed
      show "(\<forall>q. spec_evaluate (join_space (command_args input)) = Some (Some q)
            \<longrightarrow> runCommandOrChat rt input ctx =
            ([Evaluate (function_source (join_space (command_args input)))],
             Inr ([0xD83E, 0xDDEE] @ js '' **'' @ join_space (command_args input)
                  @ js ''** = **'' @ render q @ js ''**'')))
          \<and> (spec_evaluate (join_space (command_args input)) = Some None
                \<or> spec_evaluate (join_space (command_args input)) = None
            \<longrightarrow> runCommandOrChat rt input ctx =
            ([Evaluate (function_source (join_space (command_args input)))],
             Inr ([0x274C] @ js '' Invalid math expression: '' @ [dquote]
                  @ join_space (command_args input) @ [dquote])))"
        by (rule conjI [OF ok bad])
    qed
    show "(command_args input = [] \<longrightarrow>
        runCommandOrChat rt input ctx =
          ([], Inr ([0x274C] @ js '' Please provide a math expression. Example: /calc 2 + 2'')))
      \<and> (\<forall>shown. command_args input \<noteq> [] \<and> safety_check (join_space (command_args input))
          \<and> run_function rt (function_source (join_space (command_args input))) = Inr (Number True shown)
        \<longrightarrow> runCommandOrChat rt input ctx =
            ([Evaluate (function_source (join_space (command_args input)))],
             Inr ([0xD83E, 0xDDEE] @ js '' **'' @ join_space (command_args input)
                  @ js ''** = **'' @ shown @ js ''**'')))
      \<and> (command_args input \<noteq> [] \<and> safety_check (join_space (command_args input))
          \<and> (run_function rt (function_source (join_space (command_args input))) = Inr NotNumber
               \<or> (\<exists>shown. run_function rt (function_source (join_space (command_args input))) = Inr (Number False shown)))
        \<longrightarrow> runCommandOrChat rt input ctx =
            ([Evaluate (function_source (join_space (command_args input)))],
             Inr ([0x274C] @ js '' Invalid math expression: '' @ [dquote]
                  @ join_space (command_args input) @ [dquote])))
      \<and> (run_function rt = spec_run_function \<and> command_args input \<noteq> [] \<and> safety_check (join_space (command_args input))
        \<longrightarrow>
          (\<forall>q. spec_evaluate (join_space (command_args input)) = Some (Some q)
            \<longrightarrow> runCommandOrChat rt input ctx =
            ([Evaluate (function_source (join_space (command_args input)))],
             Inr ([0xD83E, 0xDDEE] @ js '' **'' @ join_space (command_args input)
                  @ js ''** = **'' @ render q @ js ''**'')))
          \<and> (spec_evaluate (join_space (command_args input)) = Some None
                \<or> spec_evaluate (join_space (command_args input)) = None
            \<longrightarrow> runCommandOrChat rt input ctx =
            ([Evaluate (function_source (join_space (command_args input)))],
             Inr ([0x274C] @ js '' Invalid math expression: '' @ [dquote]
                  @ join_space (command_args input) @ [dquote]))))"
      by (rule conjI [OF a conjI [OF b conjI [OF f d]]])
  qed
  have trees: ?M
    by (simp add: shunt_meaning)
  have three: ?P
    by simp
  have lexed: ?X1
    by (simp add: symbol_def js_def)
  have eight: ?X2
    by (simp add: spec_evaluate_def symbol_def js_def)
  have example: ?X3
  proof -
    let ?rt = "with_arithmetic
          (mock_runtime (Inr (js ''Hi!'')) None ClipboardUnavailable (Inr NotNumber))"
    have s: "startsWith (trim (js ''/calc 2 + 2 * 3'')) (js ''/'')"
      and c: "command_name ?rt (js ''/calc 2 + 2 * 3'') = js ''calc''
              \<or> command_name ?rt (js ''/calc 2 + 2 * 3'') = js ''calculate''"
      and x: "join_space (command_args (js ''/calc 2 + 2 * 3'')) = js ''2 + 2 * 3''"
      and n: "command_args (js ''/calc 2 + 2 * 3'') \<noteq> []"
      by (simp_all add: router_defs string_defs with_arithmetic_def)
    have k: "safety_check (js ''2 + 2 * 3'')"
      by (simp add: safety_check_def allowed_char_def string_defs)
    have "run_function ?rt (function_source (js ''2 + 2 * 3'')) = Inr (Number True (js ''8''))"
      using eight
      by (simp add: with_arithmetic_def spec_run_function_def function_body_source render_def
          decimal.simps js_def)
    then have "run_function ?rt (function_source (join_space (command_args (js ''/calc 2 + 2 * 3''))))
        = Inr (Number True (js ''8''))"
      unfolding x .
    from turn_calc_result [OF s c n _ this, of empty_context] k
    show ?thesis
      unfolding x by (simp add: function_source_def js_def)
  qed
  show ?thesis
    by (rule conjI [OF turn conjI [OF trees conjI [OF three conjI [OF lexed
          conjI [OF eight example]]]]])
qed

theorem calc_evaluates_arithmetic_witness:
  "runCommandOrChat
       (with_arithmetic (mock_runtime (Inr (js ''Hi!'')) None ClipboardUnavailable (Inr NotNumber)))
       (js ''/calc'') empty_context
     = ([], Inr ([0x274C] @ js '' Please provide a math expression. Example: /calc 2 + 2''))
   \<and> runCommandOrChat
       (with_arithmetic (mock_runtime (Inr (js ''Hi!'')) None ClipboardUnavailable (Inr NotNumber)))
       (js ''/calculate (2 + 2) * 3'') empty_context
     = ([Evaluate ([dquote] @ js ''use strict'' @ [dquote] @ js ''; return ((2 + 2) * 3)'')],
        Inr ([0xD83E, 0xDDEE] @ js '' **(2 + 2) * 3** = **12**''))
   \<and> runCommandOrChat
       (with_arithmetic (mock_runtime (Inr (js ''Hi!'')) None ClipboardUnavailable (Inr NotNumber)))
       (js ''/calc 10 - 4 - 3'') empty_context
     = ([Evaluate ([dquote] @ js ''use strict'' @ [dquote] @ js ''; return (10 - 4 - 3)'')],
        Inr ([0xD83E, 0xDDEE] @ js '' **10 - 4 - 3** = **3**''))
   \<and> runCommandOrChat
       (with_arithmetic (mock_runtime (Inr (js ''Hi!'')) None ClipboardUnavailable (Inr NotNumber)))
       (js ''/calc 1 / 4'') empty_context
     = ([Evaluate ([dquote] @ js ''use strict'' @ [dquote] @ js ''; return (1 / 4)'')],
        Inr ([0xD83E, 0xDDEE] @ js '' **1 / 4** = **0.25**''))
   \<and> runCommandOrChat
       (with_arithmetic (mock_runtime (Inr (js ''Hi!'')) None ClipboardUnavailable (Inr NotNumber)))
       (js ''/calc 1 / 0'') empty_context
     = ([Evaluate ([dquote] @ js ''use strict'' @ [dquote] @ js ''; return (1 / 0)'')],
        Inr ([0x274C] @ js '' Invalid math expression: '' @ [dquote] @ js ''1 / 0'' @ [dquote]))
   \<and> runCommandOrChat
       (with_arithmetic (mock_runtime (Inr (js ''Hi!'')) None ClipboardUnavailable (Inr NotNumber)))
       (js ''/calc 2 +'') empty_context
     = ([Evaluate ([dquote] @ js ''use strict'' @ [dquote] @ js ''; return (2 +)'')],
        Inr ([0x274C] @ js '' Invalid math expression: '' @ [dquote] @ js ''2 +'' @ [dquote]))
   \<and> runCommandOrChat
       (mock_runtime (Inr (js ''Hi!'')) None ClipboardUnavailable (Inr (Number True (js ''7''))))
       (js ''/calc 3 + 4'') empty_context
     = ([Evaluate ([dquote] @ js ''use strict'' @ [dquote] @ js ''; return (3 + 4)'')],
        Inr ([0xD83E, 0xDDEE] @ js '' **3 + 4** = **7**''))"
proof -
  let ?rt = "with_arithmetic
               (mock_runtime (Inr (js ''Hi!'')) None ClipboardUnavailable (Inr NotNumber))"
  let ?seven = "mock_runtime (Inr (js ''Hi!'')) None ClipboardUnavailable
                  (Inr (Number True (js ''7'')))"
  have engine: "run_function ?rt = spec_run_function"
    by (simp add: with_arithmetic_def)
  have quarter: "quotient_of (1 / 4) = (1, 4)"
    by code_simp
  have shown: "render 12 = js ''12''" "render 3 = js ''3''" "render (1 / 4) = js ''0.25''"
    by (simp_all add: render_def decimal.simps quarter fraction_numeral js_def)
  have checked: "safety_check (js ''(2 + 2) * 3'')" "safety_check (js ''10 - 4 - 3'')"
    "safety_check (js ''1 / 4'')" "safety_check (js ''1 / 0'')" "safety_check (js ''2 +'')"
    "safety_check (js ''3 + 4'')"
    by (simp_all add: safety_check_def allowed_char_def string_defs)
  have v: "spec_evaluate (js ''(2 + 2) * 3'') = Some (Some 12)"
    "spec_evaluate (js ''10 - 4 - 3'') = Some (Some 3)"
    "spec_evaluate (js ''1 / 4'') = Some (Some (1 / 4))"
    "spec_evaluate (js ''1 / 0'') = Some None"
    "spec_evaluate (js ''2 +'') = None"
    by (simp_all add: spec_evaluate_def symbol_def js_def)
  have c0: "startsWith (trim (js ''/calc'')) (js ''/'')
      \<and> (command_name ?rt (js ''/calc'') = js ''calc''
          \<or> command_name ?rt (js ''/calc'') = js ''calculate'')"
    and a0: "command_args (js ''/calc'') = []"
    by (simp_all add: router_defs string_defs with_arithmetic_def)
  have c1: "startsWith (trim (js ''/calculate (2 + 2) * 3'')) (js ''/'')
      \<and> (command_name ?rt (js ''/calculate (2 + 2) * 3'') = js ''calc''
          \<or> command_name ?rt (js ''/calculate (2 + 2) * 3'') = js ''calculate'')"
    and x1: "join_space (command_args (js ''/calculate (2 + 2) * 3'')) = js ''(2 + 2) * 3''"
    and n1: "command_args (js ''/calculate (2 + 2) * 3'') \<noteq> []"
    by (simp_all add: router_defs string_defs with_arithmetic_def)
  have c2: "startsWith (trim (js ''/calc 10 - 4 - 3'')) (js ''/'')
      \<and> (command_name ?rt (js ''/calc 10 - 4 - 3'') = js ''calc''
          \<or> command_name ?rt (js ''/calc 10 - 4 - 3'') = js ''calculate'')"
    and x2: "join_space (command_args (js ''/calc 10 - 4 - 3'')) = js ''10 - 4 - 3''"
    and n2: "command_args (js ''/calc 10 - 4 - 3'') \<noteq> []"
    by (simp_all add: router_defs string_defs with_arithmetic_def)
  have c3: "startsWith (trim (js ''/calc 1 / 4'')) (js ''/'')
      \<and> (command_name ?rt (js ''/calc 1 / 4'') = js ''calc''
          \<or> command_name ?rt (js ''/calc 1 / 4'') = js ''calculate'')"
    and x3: "join_space (command_args (js ''/calc 1 / 4'')) = js ''1 / 4''"
    and n3: "command_args (js ''/calc 1 / 4'') \<noteq> []"
    by (simp_all add: router_defs string_defs with_arithmetic_def)
  have c4: "startsWith (trim (js ''/calc 1 / 0'')) (js ''/'')
      \<and> (command_name ?rt (js ''/calc 1 / 0'') = js ''calc''
          \<or> command_name ?rt (js ''/calc 1 / 0'') = js ''calculate'')"
    and x4: "join_space (command_args (js ''/calc 1 / 0'')) = js ''1 / 0''"
    and n4: "command_args (js ''/calc 1 / 0'') \<noteq> []"
    by (simp_all add: router_defs string_defs with_arithmetic_def)
  have c5: "startsWith (trim (js ''/calc 2 +'')) (js ''/'')
      \<and> (command_name ?rt (js ''/calc 2 +'') = js ''calc''
          \<or> command_name ?rt (js ''/calc 2 +'') = js ''calculate'')"
    and x5: "join_space (command_args (js ''/calc 2 +'')) = js ''2 +''"
    and n5: "command_args (js ''/calc 2 +'') \<noteq> []"
    by (simp_all add: router_defs string_defs with_arithmetic_def)
  have c6: "startsWith (trim (js ''/calc 3 + 4'')) (js ''/'')
      \<and> (command_name ?seven (js ''/calc 3 + 4'') = js ''calc''
          \<or> command_name ?seven (js ''/calc 3 + 4'') = js ''calculate'')"
    and x6: "join_space (command_args (js ''/calc 3 + 4'')) = js ''3 + 4''"
    and n6: "command_args (js ''/calc 3 + 4'') \<noteq> []"
    by (simp_all add: router_defs string_defs)
  note t = calc_evaluates_arithmetic
  have r0: "runCommandOrChat ?rt (js ''/calc'') empty_context
     = ([], Inr ([0x274C] @ js '' Please provide a math expression. Example: /calc 2 + 2''))"
    by (rule t [of "js ''/calc''" ?rt empty_context, THEN conjunct1, THEN mp, OF c0,
                THEN conjunct1, THEN mp, OF a0])
  have e1: "run_function ?rt = spec_run_function
      \<and> command_args (js ''/calculate (2 + 2) * 3'') \<noteq> []
      \<and> safety_check (join_space (command_args (js ''/calculate (2 + 2) * 3'')))"
    using engine n1 checked unfolding x1 by simp
  have r1: "runCommandOrChat ?rt (js ''/calculate (2 + 2) * 3'') empty_context
     = ([Evaluate ([dquote] @ js ''use strict'' @ [dquote] @ js ''; return ((2 + 2) * 3)'')],
        Inr ([0xD83E, 0xDDEE] @ js '' **(2 + 2) * 3** = **12**''))"
    using t [of "js ''/calculate (2 + 2) * 3''" ?rt empty_context, THEN conjunct1, THEN mp, OF c1,
             THEN conjunct2, THEN conjunct2, THEN conjunct2, THEN mp, OF e1,
             THEN conjunct1, THEN spec, of 12] v shown
    unfolding x1 by (simp add: function_source_def js_def)
  have e2: "run_function ?rt = spec_run_function
      \<and> command_args (js ''/calc 10 - 4 - 3'') \<noteq> []
      \<and> safety_check (join_space (command_args (js ''/calc 10 - 4 - 3'')))"
    using engine n2 checked unfolding x2 by simp
  have r2: "runCommandOrChat ?rt (js ''/calc 10 - 4 - 3'') empty_context
     = ([Evaluate ([dquote] @ js ''use strict'' @ [dquote] @ js ''; return (10 - 4 - 3)'')],
        Inr ([0xD83E, 0xDDEE] @ js '' **10 - 4 - 3** = **3**''))"
    using t [of "js ''/calc 10 - 4 - 3''" ?rt empty_context, THEN conjunct1, THEN mp, OF c2,
             THEN conjunct2, THEN conjunct2, THEN conjunct2, THEN mp, OF e2,
             THEN conjunct1, THEN spec, of 3] v shown
    unfolding x2 by (simp add: function_source_def js_def)
  have e3: "run_function ?rt = spec_run_function
      \<and> command_args (js ''/calc 1 / 4'') \<noteq> []
      \<and> safety_check (join_space (command_args (js ''/calc 1 / 4'')))"
    using engine n3 checked unfolding x3 by simp
  have r3: "runCommandOrChat ?rt (js ''/calc 1 / 4'') empty_context
     = ([Evaluate ([dquote] @ js ''use strict'' @ [dquote] @ js ''; return (1 / 4)'')],
        Inr ([0xD83E, 0xDDEE] @ js '' **1 / 4** = **0.25**''))"
    using t [of "js ''/calc 1 / 4''" ?rt empty_context, THEN conjunct1, THEN mp, OF c3,
             THEN conjunct2, THEN conjunct2, THEN conjunct2, THEN mp, OF e3,
             THEN conjunct1, THEN spec, of "1 / 4"] v shown
    unfolding x3 by (simp add: function_source_def js_def)
  have e4: "run_function ?rt = spec_run_function
      \<and> command_args (js ''/calc 1 / 0'') \<noteq> []
      \<and> safety_check (join_space (command_args (js ''/calc 1 / 0'')))"
    using engine n4 checked unfolding x4 by simp
  have r4: "runCommandOrChat ?rt (js ''/calc 1 / 0'') empty_context
     = ([Evaluate ([dquote] @ js ''use strict'' @ [dquote] @ js ''; return (1 / 0)'')],
        Inr ([0x274C] @ js '' Invalid math expression: '' @ [dquote] @ js ''1 / 0'' @ [dquote]))"
    using t [of "js ''/calc 1 / 0''" ?rt empty_context, THEN conjunct1, THEN mp, OF c4,
             THEN conjunct2, THEN conjunct2, THEN conjunct2, THEN mp, OF e4,
             THEN conjunct2] v
    unfolding x4 by (simp add: function_source_def js_def)
  have e5: "run_function ?rt = spec_run_function
      \<and> command_args (js ''/calc 2 +'') \<noteq> []
      \<and> safety_check (join_space (command_args (js ''/calc 2 +'')))"
    using engine n5 checked unfolding x5 by simp
  have r5: "runCommandOrChat ?rt (js ''/calc 2 +'') empty_context
     = ([Evaluate ([dquote] @ js ''use strict'' @ [dquote] @ js ''; return (2 +)'')],
        Inr ([0x274C] @ js '' Invalid math expression: '' @ [dquote] @ js ''2 +'' @ [dquote]))"
    using t [of "js ''/calc 2 +''" ?rt empty_context, THEN conjunct1, THEN mp, OF c5,
             THEN conjunct2, THEN conjunct2, THEN conjunct2, THEN mp, OF e5,
             THEN conjunct2] v
    unfolding x5 by (simp add: function_source_def js_def)
  have e6: "command_args (js ''/calc 3 + 4'') \<noteq> []
      \<and> safety_check (join_space (command_args (js ''/calc 3 + 4'')))
      \<and> run_function ?seven (function_source (join_space (command_args (js ''/calc 3 + 4''))))
          = Inr (Number True (js ''7''))"
    using n6 checked unfolding x6 by (simp add: mock_runtime_def)
  have r6: "runCommandOrChat ?seven (js ''/calc 3 + 4'') empty_context
     = ([Evaluate ([dquote] @ js ''use strict'' @ [dquote] @ js ''; return (3 + 4)'')],
        Inr ([0xD83E, 0xDDEE] @ js '' **3 + 4** = **7**''))"
    using t [of "js ''/calc 3 + 4''" ?seven empty_context, THEN conjunct1, THEN mp, OF c6,
             THEN conjunct2, THEN conjunct1, THEN spec, THEN mp, OF e6]
    unfolding x6 by (simp add: function_source_def js_def)
  show ?thesis
    by (rule conjI [OF r0 conjI [OF r1 conjI [OF r2 conjI [OF r3 conjI [OF r4
          conjI [OF r5 r6]]]]]])
qed

section \<open>The Model Client's answer\<close>

text \<open>
  Lines 110 to 116 return the trimmed text exactly when the first message's content is a
  string with something other than white space in it; every other payload ends in the
  throw of line 113.
\<close>

lemma trim_Nil: "trim [] = []"
  by (simp add: trim_def)

lemma response_text_string:
  "first_content data = Some (JString t) \<Longrightarrow>
     response_text data =
       (if list_all isWhiteSpace t then Inl EmptyResponseError else Inr (trim t))"
  by (simp add: response_text_def trim_empty_iff)

lemma response_text_other:
  assumes "\<forall>t. first_content data \<noteq> Some (JString t)"
  shows "response_text data = Inl EmptyResponseError"
proof (cases "first_content data")
  case None
  then show ?thesis by (simp add: response_text_def trim_Nil)
next
  case (Some v)
  with assms show ?thesis
    by (cases v) (simp_all add: response_text_def trim_Nil)
qed

lemma response_text_returns:
  assumes "response_text data = Inr r"
  shows "\<exists>t. first_content data = Some (JString t) \<and> \<not> list_all isWhiteSpace t \<and> r = trim t"
proof (cases "\<exists>t. first_content data = Some (JString t)")
  case True
  then obtain t where t: "first_content data = Some (JString t)" by blast
  with assms have "\<not> list_all isWhiteSpace t \<and> r = trim t"
    by (auto simp: response_text_string split: if_splits)
  with t show ?thesis by blast
next
  case False
  then have "response_text data = Inl EmptyResponseError"
    by (simp add: response_text_other)
  with assms show ?thesis by simp
qed

lemma chat_returns:
  assumes "chat env sys msgs opts = Inr r"
  shows "\<exists>data. response_text data = Inr r"
  using assms
  by (auto simp: chat_def split: if_splits sum.splits)

lemma chat_ok:
  assumes "truthy (API_KEY env)"
    and "fetch env (chat_request env sys msgs opts) = Inr resp"
    and "ok resp" and "body_json resp = Inr data"
  shows "chat env sys msgs opts = response_text data"
  using assms by (simp add: chat_def)

text \<open>
  C8. On the path where the key is set, \<open>fetch\<close> resolves with an \<open>ok\<close> response and
  its body parses to \<open>data\<close>: when the content of the first message is missing
  (\<open>undefined\<close> or \<open>null\<close>), is not a string, or is a string of white space only,
  \<open>chat\<close> throws the error \<open>Empty response from model.\<close>; when it is a string with other
  characters, \<open>chat\<close> returns it trimmed. And whatever the environment, a text that
  \<open>chat\<close> returns is not empty and neither starts nor ends with white space.
\<close>

theorem chat_never_returns_blank:
  "(truthy (API_KEY env)
      \<and> fetch env (chat_request env sys msgs opts) = Inr resp
      \<and> ok resp \<and> body_json resp = Inr data
    \<longrightarrow>
      ((first_content data = None
          \<or> first_content data = Some JNull
          \<or> (\<forall>t. first_content data \<noteq> Some (JString t))
          \<or> (\<exists>t. first_content data = Some (JString t) \<and> list_all isWhiteSpace t))
        \<longrightarrow> chat env sys msgs opts = Inl (Error (js ''Empty response from model.'')))
      \<and> (\<forall>t. first_content data = Some (JString t) \<and> \<not> list_all isWhiteSpace t
            \<longrightarrow> chat env sys msgs opts = Inr (trim t)))
   \<and> (\<forall>r. chat env sys msgs opts = Inr r
         \<longrightarrow> r \<noteq> [] \<and> \<not> isWhiteSpace (hd r) \<and> \<not> isWhiteSpace (last r))"
proof (intro conjI impI allI)
  assume path: "truthy (API_KEY env)
      \<and> fetch env (chat_request env sys msgs opts) = Inr resp
      \<and> ok resp \<and> body_json resp = Inr data"
    and blank: "first_content data = None
          \<or> first_content data = Some JNull
          \<or> (\<forall>t. first_content data \<noteq> Some (JString t))
          \<or> (\<exists>t. first_content data = Some (JString t) \<and> list_all isWhiteSpace t)"
  from path have c: "chat env sys msgs opts = response_text data"
    by (simp add: chat_ok)
  from blank have "response_text data = Inl EmptyResponseError"
  proof (elim disjE exE conjE)
    assume "first_content data = None"
    then show ?thesis by (simp add: response_text_other)
  next
    assume "first_content data = Some JNull"
    then show ?thesis by (simp add: response_text_other)
  next
    assume "\<forall>t. first_content data \<noteq> Some (JString t)"
    then show ?thesis by (rule response_text_other)
  next
    fix t
    assume "first_content data = Some (JString t)" and "list_all isWhiteSpace t"
    then show ?thesis by (simp add: response_text_string)
  qed
  with c show "chat env sys msgs opts = Inl (Error (js ''Empty response from model.''))"
    by (simp add: EmptyResponseError_def)
next
  fix t
  assume path: "truthy (API_KEY env)
      \<and> fetch env (chat_request env sys msgs opts) = Inr resp
      \<and> ok resp \<and> body_json resp = Inr data"
    and filled: "first_content data = Some (JString t) \<and> \<not> list_all isWhiteSpace t"
  from path have "chat env sys msgs opts = response_text data"
    by (simp add: chat_ok)
  with filled show "chat env sys msgs opts = Inr (trim t)"
    by (simp add: response_text_string)
next
  fix r
  assume "chat env sys msgs opts = Inr r"
  then obtain data where "response_text data = Inr r"
    using chat_returns by blast
  then obtain t where t: "\<not> list_all isWhiteSpace t" "r = trim t"
    using response_text_returns by blast
  then have n: "trim t \<noteq> []"
    by (simp add: trim_empty_iff)
  with t show "r \<noteq> []" by simp
  from n t show "\<not> isWhiteSpace (hd r)" by (simp add: trim_hd)
  from n t show "\<not> isWhiteSpace (last r)" by (simp add: trim_last)
qed

lemma first_content_completion:
  "c \<noteq> JNull \<Longrightarrow> first_content (completion c) = Some c"
  by (cases c) (simp_all add: first_content_def completion_def js_def)

theorem chat_never_returns_blank_witness:
  "chat (answering_environment (completion (JString (js ''  Hello!  ''))))
        (js ''Be brief.'') [\<lparr>role = User, content = js ''hi''\<rparr>] \<lparr>modelOverride = None\<rparr>
     = Inr (js ''Hello!'')
   \<and> chat (answering_environment (completion (JString ([0x20, 0x0A, 0x09]))))
        (js ''Be brief.'') [\<lparr>role = User, content = js ''hi''\<rparr>] \<lparr>modelOverride = None\<rparr>
     = Inl (Error (js ''Empty response from model.''))
   \<and> chat (answering_environment (JObject [(js ''choices'', JArray [])]))
        (js ''Be brief.'') [\<lparr>role = User, content = js ''hi''\<rparr>] \<lparr>modelOverride = None\<rparr>
     = Inl (Error (js ''Empty response from model.''))"
proof -
  let ?sys = "js ''Be brief.''"
  let ?msgs = "[\<lparr>role = User, content = js ''hi''\<rparr>]"
  let ?opts = "\<lparr>modelOverride = None\<rparr>"
  let ?resp = "\<lambda>payload. \<lparr>ok = True, status = 200, statusText = js ''OK'',
                             error_detail = Inr [], body_json = Inr payload\<rparr>"
  have path: "truthy (API_KEY (answering_environment payload))
      \<and> fetch (answering_environment payload)
            (chat_request (answering_environment payload) ?sys ?msgs ?opts) = Inr (?resp payload)
      \<and> ok (?resp payload) \<and> body_json (?resp payload) = Inr payload" for payload
    by (simp add: answering_environment_def js_def)
  have hello: "first_content (completion (JString (js ''  Hello!  '')))
                 = Some (JString (js ''  Hello!  ''))
               \<and> \<not> list_all isWhiteSpace (js ''  Hello!  '')"
    by (simp add: first_content_completion string_defs)
  have blank: "\<exists>t. first_content (completion (JString [0x20, 0x0A, 0x09])) = Some (JString t)
                   \<and> list_all isWhiteSpace t"
    by (simp add: first_content_completion isWhiteSpace_def)
  have missing: "first_content (JObject [(js ''choices'', JArray [])]) = None"
    by (simp add: first_content_def js_def)
  have t: "trim (js ''  Hello!  '') = js ''Hello!''"
    by (simp add: string_defs)
  from path [of "completion (JString (js ''  Hello!  ''))"] hello
    chat_never_returns_blank [of "answering_environment (completion (JString (js ''  Hello!  '')))"
      ?sys ?msgs ?opts "?resp (completion (JString (js ''  Hello!  '')))"
      "completion (JString (js ''  Hello!  ''))"]
  have a: "chat (answering_environment (completion (JString (js ''  Hello!  ''))))
             ?sys ?msgs ?opts = Inr (trim (js ''  Hello!  ''))"
    by blast
  from path [of "completion (JString [0x20, 0x0A, 0x09])"] blank
    chat_never_returns_blank [of "answering_environment (completion (JString [0x20, 0x0A, 0x09]))"
      ?sys ?msgs ?opts "?resp (completion (JString [0x20, 0x0A, 0x09]))"
      "completion (JString [0x20, 0x0A, 0x09])"]
  have b: "chat (answering_environment (completion (JString [0x20, 0x0A, 0x09])))
             ?sys ?msgs ?opts = Inl (Error (js ''Empty response from model.''))"
    by blast
  from path [of "JObject [(js ''choices'', JArray [])]"] missing
    chat_never_returns_blank [of "answering_environment (JObject [(js ''choices'', JArray [])])"
      ?sys ?msgs ?opts "?resp (JObject [(js ''choices'', JArray [])])"
      "JObject [(js ''choices'', JArray [])]"]
  have c: "chat (answering_environment (JObject [(js ''choices'', JArray [])]))
             ?sys ?msgs ?opts = Inl (Error (js ''Empty response from model.''))"
    by blast
  show ?thesis
    using a b c unfolding t by simp
qed

end
